theory Spec2Isabelle
  imports Complex_Main "HOL-Library.Multiset" "HOL-Library.Sublist"
begin

section \<open>The record store (server/database.js)\<close>

text \<open>
  JavaScript values as the project records use them: strings, integer numbers and
  \<open>null\<close>. An object is a finite map from property names to values; a property that
  is absent reads as \<open>undefined\<close>, which is \<open>None\<close> here.
\<close>

datatype jsval = JNull | JNum int | JStr string

type_synonym jsobj = "string \<rightharpoonup> jsval"

text \<open>
  The table \<open>projects\<close>: its rows in rowid order. A row is the object that
  \<open>SELECT *\<close> yields, with one property per column and \<open>JNull\<close> for SQL NULL.
\<close>

type_synonym table = "jsobj list"

definition columns :: "string list" where
  "columns =
    [''id'', ''companyName'', ''sector'', ''subSector'', ''region'', ''zone'', ''woreda'',
     ''approvalDate'', ''owner'', ''advisorCompany'', ''evaluator'', ''grantedBy'',
     ''contactPerson'', ''ownerPhone'', ''companyEmail'', ''companyWebsite'',
     ''projectStatus'', ''employeesMale'', ''employeesFemale'', ''employeesTotal'',
     ''createdAt'', ''updatedAt'']"

definition not_null_columns :: "string list" where
  "not_null_columns =
    [''companyName'', ''sector'', ''subSector'', ''region'', ''zone'', ''woreda'',
     ''approvalDate'', ''owner'', ''contactPerson'', ''ownerPhone'', ''companyEmail'',
     ''projectStatus'', ''createdAt'', ''updatedAt'']"

definition integer_columns :: "string list" where
  "integer_columns = [''employeesMale'', ''employeesFemale'', ''employeesTotal'']"

text \<open>
  The driver binds \<open>undefined\<close> and \<open>null\<close> as SQL NULL and every other value as it is.
\<close>

fun bind_param :: "jsval option \<Rightarrow> jsval" where
  "bind_param None = JNull"
| "bind_param (Some v) = v"

text \<open>
  SQLite converts a number stored in a TEXT column to text and a numeric string stored in
  an INTEGER column to a number. The model stores every value as it is bound, which is
  what SQLite does for the objects described by \<open>typed\<close>: strings (or nothing) in
  the TEXT columns, integers (or nothing) in the INTEGER columns.
\<close>

fun typed_value :: "string \<Rightarrow> jsval option \<Rightarrow> bool" where
  "typed_value c None = True"
| "typed_value c (Some JNull) = True"
| "typed_value c (Some (JNum n)) = (c \<in> set integer_columns)"
| "typed_value c (Some (JStr s)) = (c \<notin> set integer_columns)"

definition typed :: "jsobj \<Rightarrow> bool" where
  "typed obj = list_all (\<lambda>c. typed_value c (obj c)) columns"

text \<open>
  The only failure of a statement that the model covers is a violated constraint
  (NOT NULL, or PRIMARY KEY on \<open>id\<close>); input and output failures of the database file
  are outside it. A PRIMARY KEY column of type TEXT admits NULL, any number of times.
\<close>

datatype db_error = SQLITE_CONSTRAINT

definition violates_not_null :: "jsobj \<Rightarrow> bool" where
  "violates_not_null row = list_ex (\<lambda>c. row c = Some JNull) not_null_columns"

definition id_taken :: "table \<Rightarrow> jsval \<Rightarrow> bool" where
  "id_taken db v = (v \<noteq> JNull \<and> list_ex (\<lambda>r. r ''id'' = Some v) db)"

subsection \<open>getAllProjects\<close>

text \<open>
  \<open>ORDER BY createdAt DESC\<close> compares the stored values as SQLite does: NULL before
  numbers before text, numbers by value, text byte by byte with the shorter of two
  strings first when one is the beginning of the other. The order of the bytes of UTF-8
  is the order of the code points.
\<close>

fun str_le :: "string \<Rightarrow> string \<Rightarrow> bool" where
  "str_le [] t = True"
| "str_le (x # s) [] = False"
| "str_le (x # s) (y # t) =
     ((of_char x :: nat) < of_char y \<or> ((of_char x :: nat) = of_char y \<and> str_le s t))"

fun sql_le :: "jsval \<Rightarrow> jsval \<Rightarrow> bool" where
  "sql_le JNull w = True"
| "sql_le (JNum a) JNull = False"
| "sql_le (JNum a) (JNum b) = (a \<le> b)"
| "sql_le (JNum a) (JStr t) = True"
| "sql_le (JStr s) (JStr t) = str_le s t"
| "sql_le (JStr s) w = False"

definition createdAt_of :: "jsobj \<Rightarrow> jsval" where
  "createdAt_of r = bind_param (r ''createdAt'')"

text \<open>
  SQL leaves the order of rows with equal keys open; the model sorts by insertion and
  the properties proved of the result do not depend on how ties fall.
\<close>

fun insert_desc :: "jsobj \<Rightarrow> jsobj list \<Rightarrow> jsobj list" where
  "insert_desc r [] = [r]"
| "insert_desc r (x # xs) =
     (if sql_le (createdAt_of x) (createdAt_of r) then r # x # xs else x # insert_desc r xs)"

definition order_by_createdAt_desc :: "table \<Rightarrow> jsobj list" where
  "order_by_createdAt_desc db = foldr insert_desc db []"

definition getAllProjects :: "table \<Rightarrow> db_error + jsobj list" where
  "getAllProjects db = Inr (order_by_createdAt_desc db)"

definition has_id :: "table \<Rightarrow> string \<Rightarrow> bool" where
  "has_id db ident = list_ex (\<lambda>r. r ''id'' = Some (JStr ident)) db"

subsection \<open>createProject\<close>

definition insert_values :: "jsobj \<Rightarrow> jsval list" where
  "insert_values project = map bind_param
    [project ''id'', project ''companyName'', project ''sector'', project ''subSector'',
     project ''region'', project ''zone'', project ''woreda'', project ''approvalDate'',
     project ''owner'', project ''advisorCompany'', project ''evaluator'', project ''grantedBy'',
     project ''contactPerson'', project ''ownerPhone'', project ''companyEmail'',
     project ''companyWebsite'',
     project ''projectStatus'', project ''employeesMale'', project ''employeesFemale'',
     project ''employeesTotal'',
     project ''createdAt'', project ''updatedAt'']"

text \<open>
  The INSERT names all twenty-two columns, in the order of \<open>columns\<close>, and takes the
  values by position.
\<close>

definition inserted_row :: "jsobj \<Rightarrow> jsobj" where
  "inserted_row project = map_of (zip columns (insert_values project))"

definition createProject :: "jsobj \<Rightarrow> table \<Rightarrow> (db_error + jsobj) \<times> table" where
  "createProject project db =
    (let row = inserted_row project in
     if violates_not_null row \<or> id_taken db (bind_param (row ''id''))
     then (Inl SQLITE_CONSTRAINT, db)
     else (Inr (project(''id'' := project ''id'')), db @ [row]))"

subsection \<open>updateProject\<close>

definition set_columns :: "string list" where
  "set_columns =
    [''companyName'', ''sector'', ''subSector'', ''region'', ''zone'', ''woreda'',
     ''approvalDate'', ''owner'', ''advisorCompany'', ''evaluator'', ''grantedBy'',
     ''contactPerson'', ''ownerPhone'', ''companyEmail'', ''companyWebsite'',
     ''projectStatus'', ''employeesMale'', ''employeesFemale'', ''employeesTotal'',
     ''updatedAt'']"

text \<open>
  The values of the UPDATE: one per assignment of the SET clause, then the id of the
  WHERE clause. \<open>now\<close> is the reading of \<open>new Date().toISOString()\<close>.
\<close>

definition update_values :: "string \<Rightarrow> jsobj \<Rightarrow> string \<Rightarrow> jsval list" where
  "update_values ident project now = map bind_param
    [project ''companyName'', project ''sector'', project ''subSector'', project ''region'',
     project ''zone'', project ''woreda'', project ''approvalDate'', project ''owner'',
     project ''advisorCompany'', project ''evaluator'', project ''grantedBy'',
     project ''contactPerson'',
     project ''ownerPhone'', project ''companyEmail'', project ''companyWebsite'',
     project ''projectStatus'',
     project ''employeesMale'', project ''employeesFemale'', project ''employeesTotal'',
     Some (JStr now), Some (JStr ident)]"

definition where_id :: "jsval list \<Rightarrow> jsobj \<Rightarrow> bool" where
  "where_id vals r = (last vals \<noteq> JNull \<and> r ''id'' = Some (last vals))"

definition updated_row :: "jsval list \<Rightarrow> jsobj \<Rightarrow> jsobj" where
  "updated_row vals r = r ++ map_of (zip set_columns (take (length set_columns) vals))"

definition updateProject ::
  "string \<Rightarrow> jsobj \<Rightarrow> string \<Rightarrow> table \<Rightarrow> (db_error + jsobj option) \<times> table" where
  "updateProject ident project now db =
    (let vals = update_values ident project now in
     if list_ex (\<lambda>r. where_id vals r \<and> violates_not_null (updated_row vals r)) db
     then (Inl SQLITE_CONSTRAINT, db)
     else
       (let db' = map (\<lambda>r. if where_id vals r then updated_row vals r else r) db
        in (Inr (find (\<lambda>r. r ''id'' = Some (JStr ident)) db'), db')))"

subsection \<open>deleteProject\<close>

definition deleteProject :: "string \<Rightarrow> table \<Rightarrow> (db_error + jsobj) \<times> table" where
  "deleteProject ident db =
    (Inr [''message'' \<mapsto> JStr ''Project deleted successfully''],
     filter (\<lambda>r. r ''id'' \<noteq> Some (JStr ident)) db)"

section \<open>The routes (server/index.js)\<close>

datatype json = Json_object jsobj | Json_array "jsobj list" | Json_undefined

record response =
  status :: nat
  payload :: json

definition error_response :: "string \<Rightarrow> response" where
  "error_response msg = \<lparr>status = 500, payload = Json_object [''error'' \<mapsto> JStr msg]\<rparr>"

definition get_projects :: "table \<Rightarrow> response" where
  "get_projects db =
    (case getAllProjects db of
       Inr projects \<Rightarrow> \<lparr>status = 200, payload = Json_array projects\<rparr>
     | Inl e \<Rightarrow> error_response ''Failed to fetch projects'')"

text \<open>
  The POST handler reads the clock three times: \<open>Date.now().toString()\<close> for the id,
  then \<open>new Date().toISOString()\<close> once for \<open>createdAt\<close> and once more for
  \<open>updatedAt\<close>. The three readings are the arguments \<open>now_id\<close>, \<open>t1\<close> and
  \<open>t2\<close>. The body is spread between the id and the two timestamps, so that a later
  property replaces an earlier one of the same name.
\<close>

definition newProject :: "string \<Rightarrow> jsobj \<Rightarrow> string \<Rightarrow> string \<Rightarrow> jsobj" where
  "newProject now_id body t1 t2 =
    ([''id'' \<mapsto> JStr now_id] ++ body)(''createdAt'' \<mapsto> JStr t1, ''updatedAt'' \<mapsto> JStr t2)"

definition post_projects ::
  "string \<Rightarrow> jsobj \<Rightarrow> string \<Rightarrow> string \<Rightarrow> table \<Rightarrow> response \<times> table" where
  "post_projects now_id body t1 t2 db =
    (case createProject (newProject now_id body t1 t2) db of
       (Inr project, db') \<Rightarrow> (\<lparr>status = 201, payload = Json_object project\<rparr>, db')
     | (Inl e, db') \<Rightarrow> (error_response ''Failed to create project'', db'))"

definition put_project :: "string \<Rightarrow> jsobj \<Rightarrow> string \<Rightarrow> table \<Rightarrow> response \<times> table" where
  "put_project ident body now db =
    (case updateProject ident body now db of
       (Inr project, db') \<Rightarrow> (\<lparr>status = 200,
          payload = (case project of None \<Rightarrow> Json_undefined | Some p \<Rightarrow> Json_object p)\<rparr>, db')
     | (Inl e, db') \<Rightarrow> (error_response ''Failed to update project'', db'))"

definition delete_project :: "string \<Rightarrow> table \<Rightarrow> response \<times> table" where
  "delete_project ident db =
    (case deleteProject ident db of
       (Inr ack, db') \<Rightarrow> (\<lparr>status = 200,
          payload = Json_object [''message'' \<mapsto> JStr ''Project deleted successfully'']\<rparr>, db')
     | (Inl e, db') \<Rightarrow> (error_response ''Failed to delete project'', db'))"

section \<open>Well-formed stores and requests\<close>

text \<open>
  The nineteen columns that a client supplies, and those of them that are NOT NULL.
\<close>

definition data_columns :: "string list" where
  "data_columns = butlast set_columns"

definition required_columns :: "string list" where
  "required_columns = filter (\<lambda>c. c \<in> set not_null_columns) data_columns"

definition supplies_required :: "jsobj \<Rightarrow> bool" where
  "supplies_required obj = list_all (\<lambda>c. bind_param (obj c) \<noteq> JNull) required_columns"

text \<open>
  What the table definition guarantees of every stored row: all columns are there, the
  NOT NULL columns hold a value, and no two rows share an id that is not NULL.
\<close>

definition wf_row :: "jsobj \<Rightarrow> bool" where
  "wf_row r = (list_all (\<lambda>c. r c \<noteq> None) columns \<and> \<not> violates_not_null r)"

definition wf_table :: "table \<Rightarrow> bool" where
  "wf_table db =
    (list_all wf_row db \<and> distinct (filter (\<lambda>v. v \<noteq> Some JNull) (map (\<lambda>r. r ''id'') db)))"

definition newest_first :: "jsobj list \<Rightarrow> bool" where
  "newest_first rows = sorted_wrt (\<lambda>a b. sql_le (createdAt_of b) (createdAt_of a)) rows"

definition payload_field :: "response \<Rightarrow> string \<Rightarrow> jsval option" where
  "payload_field res k = (case payload res of Json_object obj \<Rightarrow> obj k | _ \<Rightarrow> None)"

section \<open>Strings\<close>

text \<open>
  A character is a code point from U+0000 to U+00FF, the range of the type \<open>char\<close>;
  a string is a sequence of them. White space is what \<open>\s\<close> and \<open>trim\<close>
  recognise in that range: tab, line feed, vertical tab, form feed, carriage return, space
  and the no-break space U+00A0.
\<close>

definition is_space :: "char \<Rightarrow> bool" where
  "is_space c =
    (c \<in> set [CHR 0x09, CHR 0x0A, CHR 0x0B, CHR 0x0C, CHR 0x0D, CHR '' '', CHR 0xA0])"

definition trim :: "string \<Rightarrow> string" where
  "trim s = rev (dropWhile is_space (rev (dropWhile is_space s)))"

text \<open>
  \<open>toLowerCase\<close> maps each upper-case letter to its lower-case letter and leaves
  every other character as it is. The upper-case letters of the range are A to Z, U+00C0
  to U+00D6 and U+00D8 to U+00DE; the lower-case letter is 32 code points above.
\<close>

definition upper_letters :: string where
  "upper_letters =
    ''ABCDEFGHIJKLMNOPQRSTUVWXYZ'' @
    [CHR 0xC0, CHR 0xC1, CHR 0xC2, CHR 0xC3, CHR 0xC4, CHR 0xC5, CHR 0xC6, CHR 0xC7,
     CHR 0xC8, CHR 0xC9, CHR 0xCA, CHR 0xCB, CHR 0xCC, CHR 0xCD, CHR 0xCE, CHR 0xCF,
     CHR 0xD0, CHR 0xD1, CHR 0xD2, CHR 0xD3, CHR 0xD4, CHR 0xD5, CHR 0xD6, CHR 0xD8,
     CHR 0xD9, CHR 0xDA, CHR 0xDB, CHR 0xDC, CHR 0xDD, CHR 0xDE]"

definition lower_letters :: string where
  "lower_letters =
    ''abcdefghijklmnopqrstuvwxyz'' @
    [CHR 0xE0, CHR 0xE1, CHR 0xE2, CHR 0xE3, CHR 0xE4, CHR 0xE5, CHR 0xE6, CHR 0xE7,
     CHR 0xE8, CHR 0xE9, CHR 0xEA, CHR 0xEB, CHR 0xEC, CHR 0xED, CHR 0xEE, CHR 0xEF,
     CHR 0xF0, CHR 0xF1, CHR 0xF2, CHR 0xF3, CHR 0xF4, CHR 0xF5, CHR 0xF6, CHR 0xF8,
     CHR 0xF9, CHR 0xFA, CHR 0xFB, CHR 0xFC, CHR 0xFD, CHR 0xFE]"

definition lower_char :: "char \<Rightarrow> char" where
  "lower_char c =
    (case map_of (zip upper_letters lower_letters) c of
       Some d \<Rightarrow> d
     | None \<Rightarrow> c)"

definition toLowerCase :: "string \<Rightarrow> string" where
  "toLowerCase s = map lower_char s"

fun starts_with :: "string \<Rightarrow> string \<Rightarrow> bool" where
  "starts_with s [] = True"
| "starts_with [] (y # t) = False"
| "starts_with (x # s) (y # t) = (x = y \<and> starts_with s t)"

fun includes' :: "string \<Rightarrow> string \<Rightarrow> bool" where
  "includes' [] t = starts_with [] t"
| "includes' (x # s) t = (starts_with (x # s) t \<or> includes' s t)"

subsection \<open>Regular expressions\<close>

text \<open>
  The fragment of regular expressions that the e-mail pattern needs, matched by
  derivatives. \<open>regex_test\<close> is \<open>RegExp.prototype.test\<close> for a pattern without
  anchors: some substring of the subject matches.
\<close>

datatype regex =
  RNever | REmpty | RLit char | RNotSpace
  | RSeq regex regex | RAlt regex regex | RStar regex | RPlus regex

fun nullable :: "regex \<Rightarrow> bool" where
  "nullable RNever = False"
| "nullable REmpty = True"
| "nullable (RLit c) = False"
| "nullable RNotSpace = False"
| "nullable (RSeq r s) = (nullable r \<and> nullable s)"
| "nullable (RAlt r s) = (nullable r \<or> nullable s)"
| "nullable (RStar r) = True"
| "nullable (RPlus r) = nullable r"

fun deriv :: "char \<Rightarrow> regex \<Rightarrow> regex" where
  "deriv c RNever = RNever"
| "deriv c REmpty = RNever"
| "deriv c (RLit d) = (if c = d then REmpty else RNever)"
| "deriv c RNotSpace = (if is_space c then RNever else REmpty)"
| "deriv c (RSeq r s) =
     (if nullable r then RAlt (RSeq (deriv c r) s) (deriv c s) else RSeq (deriv c r) s)"
| "deriv c (RAlt r s) = RAlt (deriv c r) (deriv c s)"
| "deriv c (RStar r) = RSeq (deriv c r) (RStar r)"
| "deriv c (RPlus r) = RSeq (deriv c r) (RStar r)"

fun match_prefix :: "regex \<Rightarrow> string \<Rightarrow> bool" where
  "match_prefix r [] = nullable r"
| "match_prefix r (c # cs) = (nullable r \<or> match_prefix (deriv c r) cs)"

fun regex_test :: "regex \<Rightarrow> string \<Rightarrow> bool" where
  "regex_test r [] = match_prefix r []"
| "regex_test r (c # cs) = (match_prefix r (c # cs) \<or> regex_test r cs)"

text \<open>The pattern \<^verbatim>\<open>/\S+@\S+\.\S+/\<close>.\<close>

definition email_regex :: regex where
  "email_regex =
    RSeq (RPlus RNotSpace) (RSeq (RLit CHR ''@'')
      (RSeq (RPlus RNotSpace) (RSeq (RLit CHR ''.'') (RPlus RNotSpace))))"

text \<open>
  What it means for a string to match: the language of a regular expression, with
  concatenation and iteration of languages. \<open>non_space\<close> describes the strings that
  match \<^verbatim>\<open>\S+\<close>.
\<close>

definition conc :: "string set \<Rightarrow> string set \<Rightarrow> string set" where
  "conc A B = {u @ v | u v. u \<in> A \<and> v \<in> B}"

inductive_set star :: "string set \<Rightarrow> string set" for A :: "string set" where
  star_empty: "[] \<in> star A"
| star_step: "u \<in> A \<Longrightarrow> w \<in> star A \<Longrightarrow> u @ w \<in> star A"

fun lang :: "regex \<Rightarrow> string set" where
  "lang RNever = {}"
| "lang REmpty = {[]}"
| "lang (RLit c) = {[c]}"
| "lang RNotSpace = {[c] | c. \<not> is_space c}"
| "lang (RSeq r s) = conc (lang r) (lang s)"
| "lang (RAlt r s) = lang r \<union> lang s"
| "lang (RStar r) = star (lang r)"
| "lang (RPlus r) = conc (lang r) (star (lang r))"

definition non_space :: "string \<Rightarrow> bool" where
  "non_space w = (w \<noteq> [] \<and> list_all (\<lambda>c. \<not> is_space c) w)"

section \<open>The project form (components/ProjectForm.tsx)\<close>

text \<open>
  The source holds two versions of the component. They agree on the duplicate check, on
  the validation and on the recomputation of the total; only the later one has a free
  text for the sub-sector "Other" and passes the values to the inputs explicitly. The
  model follows the later version.
\<close>

record formData =
  companyName :: string
  sector :: string
  subSector :: string
  region :: string
  zone :: string
  woreda :: string
  approvalDate :: string
  owner :: string
  advisorCompany :: string
  evaluator :: string
  grantedBy :: string
  contactPerson :: string
  ownerPhone :: string
  companyEmail :: string
  companyWebsite :: string
  projectStatus :: string
  employeesMale :: int
  employeesFemale :: int
  employeesTotal :: int

text \<open>
  A project as the client holds it: the fields of the form with the three that the
  server assigns.
\<close>

record project = formData +
  id' :: string
  createdAt :: string
  updatedAt :: string

record metadata =
  regions :: "string list"
  sectors :: "string list"
  subSectors :: "string list"
  projectStatuses :: "string list"

text \<open>The metadata that the server serves (server/index.js).\<close>

definition server_metadata :: metadata where
  "server_metadata =
    \<lparr>regions =
       [''Addis Ababa'', ''Afar'', ''Amhara'', ''Benishangul-Gumuz'', ''Dire Dawa'',
        ''Gambela'', ''Harari'', ''Oromia'', ''Sidama'', ''SNNP'', ''Somali'', ''Tigray'',
        ''Southwest'', ''Central Ethiopia''],
     sectors = [''Health'', ''Industry'', ''Agriculture''],
     subSectors =
       [''Agroprocessing'', ''Food and Beverage'', ''Construction and Engineering'',
        ''Chemical and Detergents'', ''Textile and Garment'', ''Multi-Sectorial'', ''Minerals''],
     projectStatuses = [''Planning'', ''In Progress'', ''Completed'', ''On Hold'', ''Cancelled'']\<rparr>"

subsection \<open>The duplicate check\<close>

text \<open>
  The effect that runs when the company name, the sector or the region of the form
  changes. \<open>editing\<close> is the property \<open>project\<close> of the form: the record being
  edited, or nothing when a record is being created. The result is the pair of
  \<open>duplicateWarning\<close> and \<open>isDuplicateBlocked\<close>.
\<close>

definition is_duplicate_of :: "formData \<Rightarrow> project option \<Rightarrow> project \<Rightarrow> bool" where
  "is_duplicate_of fd editing p =
    (toLowerCase (companyName p) = toLowerCase (companyName fd) \<and>
     sector p = sector fd \<and>
     region p = region fd \<and>
     (case editing of None \<Rightarrow> True | Some q \<Rightarrow> id' p \<noteq> id' q))"

definition duplicate_message :: "formData \<Rightarrow> string" where
  "duplicate_message fd =
    ''A project with the company name '' @ [CHR 0x22] @ companyName fd @ [CHR 0x22] @
    '' already exists in the '' @ sector fd @ '' sector in '' @ region fd @
    '' region. Please verify this is not a duplicate entry.''"

definition duplicate_check :: "formData \<Rightarrow> project list \<Rightarrow> project option \<Rightarrow> string \<times> bool" where
  "duplicate_check fd existingProjects editing =
    (if companyName fd \<noteq> [] \<and> sector fd \<noteq> [] \<and> region fd \<noteq> []
     then (case find (is_duplicate_of fd editing) existingProjects of
             Some duplicateProject \<Rightarrow> (duplicate_message fd, True)
           | None \<Rightarrow> ([], False))
     else ([], False))"

definition isDuplicateBlocked :: "formData \<Rightarrow> project list \<Rightarrow> project option \<Rightarrow> bool" where
  "isDuplicateBlocked fd existingProjects editing =
    snd (duplicate_check fd existingProjects editing)"

subsection \<open>handleChange\<close>

record form_state =
  formData :: formData
  otherSubSector :: string
  errors :: "(string \<times> string) list"

text \<open>
  Writing the property \<open>name\<close> of the form data. The sixteen text fields and the
  three employee counts are the properties the form has; a write under any other name
  adds a property that nothing reads.
\<close>

definition assign_text :: "string \<Rightarrow> string \<Rightarrow> formData \<Rightarrow> formData" where
  "assign_text name v fd =
    (if name = ''companyName'' then fd\<lparr>companyName := v\<rparr>
     else if name = ''sector'' then fd\<lparr>sector := v\<rparr>
     else if name = ''subSector'' then fd\<lparr>subSector := v\<rparr>
     else if name = ''region'' then fd\<lparr>region := v\<rparr>
     else if name = ''zone'' then fd\<lparr>zone := v\<rparr>
     else if name = ''woreda'' then fd\<lparr>woreda := v\<rparr>
     else if name = ''approvalDate'' then fd\<lparr>approvalDate := v\<rparr>
     else if name = ''owner'' then fd\<lparr>owner := v\<rparr>
     else if name = ''advisorCompany'' then fd\<lparr>advisorCompany := v\<rparr>
     else if name = ''evaluator'' then fd\<lparr>evaluator := v\<rparr>
     else if name = ''grantedBy'' then fd\<lparr>grantedBy := v\<rparr>
     else if name = ''contactPerson'' then fd\<lparr>contactPerson := v\<rparr>
     else if name = ''ownerPhone'' then fd\<lparr>ownerPhone := v\<rparr>
     else if name = ''companyEmail'' then fd\<lparr>companyEmail := v\<rparr>
     else if name = ''companyWebsite'' then fd\<lparr>companyWebsite := v\<rparr>
     else if name = ''projectStatus'' then fd\<lparr>projectStatus := v\<rparr>
     else fd)"

definition assign_number :: "string \<Rightarrow> int \<Rightarrow> formData \<Rightarrow> formData" where
  "assign_number name n fd =
    (if name = ''employeesMale'' then fd\<lparr>employeesMale := n\<rparr>
     else if name = ''employeesFemale'' then fd\<lparr>employeesFemale := n\<rparr>
     else if name = ''employeesTotal'' then fd\<lparr>employeesTotal := n\<rparr>
     else fd)"

fun set_key :: "string \<Rightarrow> string \<Rightarrow> (string \<times> string) list \<Rightarrow> (string \<times> string) list" where
  "set_key k v [] = [(k, v)]"
| "set_key k v ((k', v') # kvs) = (if k = k' then (k, v) # kvs else (k', v') # set_key k v kvs)"

text \<open>
  \<open>Number\<close> is the conversion of the text of a number input to the number it
  denotes, here an integer count.
\<close>

definition handleChange :: "(string \<Rightarrow> int) \<Rightarrow> form_state \<Rightarrow> string \<Rightarrow> string \<Rightarrow> form_state" where
  "handleChange Number st name v =
    (let prev = formData st;
         newData = (if includes' name ''employees''
                    then assign_number name (Number v) prev
                    else assign_text name v prev);
         newData = (if name = ''employeesMale'' \<or> name = ''employeesFemale''
                    then (let male = (if name = ''employeesMale'' then Number v
                                      else employeesMale prev);
                              female = (if name = ''employeesFemale'' then Number v
                                        else employeesFemale prev)
                          in newData\<lparr>employeesTotal := male + female\<rparr>)
                    else newData)
     in st\<lparr>formData := newData,
            otherSubSector := (if name = ''subSector'' \<and> v \<noteq> ''Other'' then []
                               else otherSubSector st),
            errors := (case map_of (errors st) name of
                         Some (c # cs) \<Rightarrow> set_key name [] (errors st)
                       | _ \<Rightarrow> errors st)\<rparr>)"

text \<open>
  The inputs of the form, in the order of the markup: name, type and whether the input
  is read-only. Only these can raise a change event.
\<close>

definition form_inputs :: "(string \<times> string \<times> bool) list" where
  "form_inputs =
    [(''companyName'', ''text'', False), (''owner'', ''text'', False),
     (''sector'', ''select'', False), (''subSector'', ''select'', False),
     (''region'', ''select'', False), (''zone'', ''text'', False),
     (''woreda'', ''text'', False), (''approvalDate'', ''date'', False),
     (''projectStatus'', ''select'', False), (''contactPerson'', ''text'', False),
     (''ownerPhone'', ''tel'', False), (''companyEmail'', ''email'', False),
     (''companyWebsite'', ''url'', False), (''advisorCompany'', ''text'', False),
     (''evaluator'', ''text'', False), (''grantedBy'', ''text'', False),
     (''employeesMale'', ''number'', False), (''employeesFemale'', ''number'', False),
     (''employeesTotal'', ''number'', True)]"

definition editable_inputs :: "string list" where
  "editable_inputs = map fst (filter (\<lambda>(name, type, readOnly). \<not> readOnly) form_inputs)"

subsection \<open>validateForm\<close>

text \<open>
  \<open>t\<close> is the translation function of the language context. The errors are kept in
  the order in which the function writes them; every name is written at most once.
\<close>

definition required_trimmed :: "(string \<Rightarrow> string) \<Rightarrow> string \<Rightarrow> string \<Rightarrow> (string \<times> string) list" where
  "required_trimmed t name v = (if trim v = [] then [(name, t ''form.required'')] else [])"

definition required_present :: "(string \<Rightarrow> string) \<Rightarrow> string \<Rightarrow> string \<Rightarrow> (string \<times> string) list" where
  "required_present t name v = (if v = [] then [(name, t ''form.required'')] else [])"

definition email_errors :: "(string \<Rightarrow> string) \<Rightarrow> string \<Rightarrow> (string \<times> string) list" where
  "email_errors t v =
    (if trim v = [] then [(''companyEmail'', t ''form.required'')]
     else if \<not> regex_test email_regex v then [(''companyEmail'', ''Invalid email format'')]
     else [])"

definition duplicate_errors :: "bool \<Rightarrow> (string \<times> string) list" where
  "duplicate_errors blocked =
    (if blocked
     then [(''duplicate'',
            ''Cannot create duplicate project. Please modify the company name, sector, or region.'')]
     else [])"

definition validateForm ::
  "(string \<Rightarrow> string) \<Rightarrow> formData \<Rightarrow> bool \<Rightarrow> (string \<times> string) list \<times> bool" where
  "validateForm t fd blocked =
    (let newErrors =
       required_trimmed t ''companyName'' (companyName fd) @
       required_present t ''sector'' (sector fd) @
       required_present t ''subSector'' (subSector fd) @
       required_present t ''region'' (region fd) @
       required_trimmed t ''zone'' (zone fd) @
       required_trimmed t ''woreda'' (woreda fd) @
       required_present t ''approvalDate'' (approvalDate fd) @
       required_trimmed t ''owner'' (owner fd) @
       required_present t ''projectStatus'' (projectStatus fd) @
       required_trimmed t ''contactPerson'' (contactPerson fd) @
       required_trimmed t ''ownerPhone'' (ownerPhone fd) @
       email_errors t (companyEmail fd) @
       duplicate_errors blocked
     in (newErrors, length (map fst newErrors) = 0))"

section \<open>The dashboard (components/Dashboard.tsx)\<close>

record DashboardStats =
  totalProjects :: nat
  totalEmployees :: int
  maleEmployees :: int
  femaleEmployees :: int
  completedProjects :: nat
  inProgressProjects :: nat

definition stats :: "project list \<Rightarrow> DashboardStats" where
  "stats projects =
    \<lparr>totalProjects = length projects,
     totalEmployees = foldl (\<lambda>sum p. sum + employeesTotal p) 0 projects,
     maleEmployees = foldl (\<lambda>sum p. sum + employeesMale p) 0 projects,
     femaleEmployees = foldl (\<lambda>sum p. sum + employeesFemale p) 0 projects,
     completedProjects = length (filter (\<lambda>p. projectStatus p = ''Completed'') projects),
     inProgressProjects = length (filter (\<lambda>p. projectStatus p = ''In Progress'') projects)\<rparr>"

text \<open>
  The entries of the three charts: (name, value, employees) for a sector, (name, value)
  for a status and (name, projects, employees) for a region. Without metadata each
  chart is empty.
\<close>

definition sectorData :: "project list \<Rightarrow> metadata option \<Rightarrow> (string \<times> nat \<times> int) list" where
  "sectorData projects md =
    (case md of
       None \<Rightarrow> []
     | Some m \<Rightarrow>
         map (\<lambda>sector'.
                (sector',
                 length (filter (\<lambda>p. sector p = sector') projects),
                 foldl (\<lambda>sum p. sum + employeesTotal p) 0
                   (filter (\<lambda>p. sector p = sector') projects)))
             (sectors m))"

definition statusData :: "project list \<Rightarrow> metadata option \<Rightarrow> (string \<times> nat) list" where
  "statusData projects md =
    (case md of
       None \<Rightarrow> []
     | Some m \<Rightarrow>
         map (\<lambda>status'. (status', length (filter (\<lambda>p. projectStatus p = status') projects)))
             (projectStatuses m))"

definition regionData :: "project list \<Rightarrow> metadata option \<Rightarrow> (string \<times> nat \<times> int) list" where
  "regionData projects md =
    (case md of
       None \<Rightarrow> []
     | Some m \<Rightarrow>
         map (\<lambda>region'.
                (region',
                 length (filter (\<lambda>p. region p = region') projects),
                 foldl (\<lambda>sum p. sum + employeesTotal p) 0
                   (filter (\<lambda>p. region p = region') projects)))
             (regions m))"

subsection \<open>The gender distribution\<close>

text \<open>
  Division and multiplication of JavaScript numbers never raise: a zero divisor gives
  \<open>NaN\<close> or an infinity. \<open>Finite q\<close> stands for the double nearest to \<open>q\<close>; the
  rounding of doubles is not part of the model.
\<close>

datatype jsnumber = NaN | PosInfinity | NegInfinity | Finite rat

definition js_divide :: "int \<Rightarrow> int \<Rightarrow> jsnumber" where
  "js_divide a b =
    (if b = 0
     then (if a = 0 then NaN else if 0 < a then PosInfinity else NegInfinity)
     else Finite (of_int a / of_int b))"

fun js_times :: "jsnumber \<Rightarrow> int \<Rightarrow> jsnumber" where
  "js_times NaN k = NaN"
| "js_times PosInfinity k = (if k = 0 then NaN else if 0 < k then PosInfinity else NegInfinity)"
| "js_times NegInfinity k = (if k = 0 then NaN else if 0 < k then NegInfinity else PosInfinity)"
| "js_times (Finite q) k = Finite (q * of_int k)"

definition malePercentage :: "DashboardStats \<Rightarrow> jsnumber" where
  "malePercentage st = js_times (js_divide (maleEmployees st) (totalEmployees st)) 100"

definition femalePercentage :: "DashboardStats \<Rightarrow> jsnumber" where
  "femalePercentage st = js_times (js_divide (femaleEmployees st) (totalEmployees st)) 100"

section \<open>Example data\<close>

text \<open>
  A request body with every field of a project, the row that the store keeps for it, two
  variations of the body, and a body with the project status only.
\<close>

definition acme :: jsobj where
  "acme =
    [''companyName'' \<mapsto> JStr ''Acme'', ''sector'' \<mapsto> JStr ''Health'',
     ''subSector'' \<mapsto> JStr ''Agroprocessing'', ''region'' \<mapsto> JStr ''Afar'',
     ''zone'' \<mapsto> JStr ''Zone 1'', ''woreda'' \<mapsto> JStr ''Asayita'',
     ''approvalDate'' \<mapsto> JStr ''2025-01-15'', ''owner'' \<mapsto> JStr ''Abebe'',
     ''advisorCompany'' \<mapsto> JStr [], ''evaluator'' \<mapsto> JStr [], ''grantedBy'' \<mapsto> JStr [],
     ''contactPerson'' \<mapsto> JStr ''Sara'', ''ownerPhone'' \<mapsto> JStr ''0911000000'',
     ''companyEmail'' \<mapsto> JStr ''info@acme.et'', ''companyWebsite'' \<mapsto> JStr [],
     ''projectStatus'' \<mapsto> JStr ''Planning'', ''employeesMale'' \<mapsto> JNum 3,
     ''employeesFemale'' \<mapsto> JNum 2, ''employeesTotal'' \<mapsto> JNum 5]"

definition acme_row :: "string \<Rightarrow> string \<Rightarrow> jsobj" where
  "acme_row ident time = inserted_row (newProject ident acme time time)"

definition acme_with_id :: jsobj where
  "acme_with_id =
    acme(''id'' \<mapsto> JStr ''custom-id'', ''createdAt'' \<mapsto> JStr ''1999-12-31T00:00:00.000Z'',
         ''updatedAt'' \<mapsto> JStr ''1999-12-31T00:00:00.000Z'')"

definition status_only :: jsobj where
  "status_only = [''projectStatus'' \<mapsto> JStr ''Completed'']"

definition acme_completed :: jsobj where
  "acme_completed = acme(''projectStatus'' \<mapsto> JStr ''Completed'')"

text \<open>
  The same project as the form holds it and as the client holds it, a translation
  function, a conversion of strings of decimal digits, a form state, a body whose total is
  not the sum of its counts, a project without employees, and three projects with 10, 20
  and 30 employees.
\<close>

definition acme_form :: formData where
  "acme_form =
    \<lparr>companyName = ''Acme'', sector = ''Health'', subSector = ''Agroprocessing'',
     region = ''Afar'', zone = ''Zone 1'', woreda = ''Asayita'',
     approvalDate = ''2025-01-15'', owner = ''Abebe'', advisorCompany = [], evaluator = [],
     grantedBy = [], contactPerson = ''Sara'', ownerPhone = ''0911000000'',
     companyEmail = ''info@acme.et'', companyWebsite = [], projectStatus = ''Planning'',
     employeesMale = 3, employeesFemale = 2, employeesTotal = 5\<rparr>"

definition as_project :: "formData \<Rightarrow> string \<Rightarrow> string \<Rightarrow> project" where
  "as_project fd ident time =
    \<lparr>companyName = companyName fd, sector = sector fd, subSector = subSector fd,
     region = region fd, zone = zone fd, woreda = woreda fd,
     approvalDate = approvalDate fd, owner = owner fd, advisorCompany = advisorCompany fd,
     evaluator = evaluator fd, grantedBy = grantedBy fd, contactPerson = contactPerson fd,
     ownerPhone = ownerPhone fd, companyEmail = companyEmail fd,
     companyWebsite = companyWebsite fd, projectStatus = projectStatus fd,
     employeesMale = employeesMale fd, employeesFemale = employeesFemale fd,
     employeesTotal = employeesTotal fd,
     id' = ident, createdAt = time, updatedAt = time\<rparr>"

definition acme_project :: project where
  "acme_project = as_project acme_form ''1736928000000'' ''2025-01-15T08:00:00.000Z''"

definition t_example :: "string \<Rightarrow> string" where
  "t_example key = (if key = ''form.required'' then ''This field is required'' else key)"

definition decimal :: "string \<Rightarrow> int" where
  "decimal s = foldl (\<lambda>n c. 10 * n + (of_char c - 48)) 0 s"

definition acme_state :: form_state where
  "acme_state = \<lparr>formData = acme_form, otherSubSector = [], errors = []\<rparr>"

definition acme_inconsistent :: jsobj where
  "acme_inconsistent = acme(''employeesTotal'' \<mapsto> JNum 99)"

definition idle_project :: project where
  "idle_project =
    as_project (acme_form\<lparr>employeesMale := 0, employeesFemale := 0, employeesTotal := 0\<rparr>)
      ''4'' ''2025-01-18T08:00:00.000Z''"

definition three_projects :: "project list" where
  "three_projects =
    [as_project (acme_form\<lparr>employeesMale := 4, employeesFemale := 6, employeesTotal := 10\<rparr>)
       ''1'' ''2025-01-15T08:00:00.000Z'',
     as_project (acme_form\<lparr>companyName := ''Beta'', projectStatus := ''Completed'',
         employeesMale := 15, employeesFemale := 5, employeesTotal := 20\<rparr>)
       ''2'' ''2025-01-16T08:00:00.000Z'',
     as_project (acme_form\<lparr>companyName := ''Gamma'', sector := ''Industry'',
         region := ''Oromia'', projectStatus := ''In Progress'',
         employeesMale := 10, employeesFemale := 20, employeesTotal := 30\<rparr>)
       ''3'' ''2025-01-17T08:00:00.000Z'']"

section \<open>Properties of the store operations\<close>

lemma where_id_update_values:
  "where_id (update_values ident project now) r = (r ''id'' = Some (JStr ident))"
  by (simp add: where_id_def update_values_def)

lemma absent_no_hit:
  "\<not> has_id db ident \<Longrightarrow> r \<in> set db \<Longrightarrow> r ''id'' \<noteq> Some (JStr ident)"
  by (auto simp: has_id_def list_ex_iff)

lemma updateProject_absent:
  assumes "\<not> has_id db ident"
  shows "updateProject ident project now db = (Inr None, db)"
proof -
  let ?vals = "update_values ident project now"
  have miss: "\<And>r. r \<in> set db \<Longrightarrow> \<not> where_id ?vals r"
    using assms by (simp add: where_id_update_values absent_no_hit)
  have unchanged: "map (\<lambda>r. if where_id ?vals r then updated_row ?vals r else r) db = db"
    using miss by (simp add: map_idI)
  have not_found: "find (\<lambda>r. r ''id'' = Some (JStr ident)) db = None"
    using assms by (auto simp: find_None_iff dest: absent_no_hit)
  have no_fail: "\<not> list_ex (\<lambda>r. where_id ?vals r \<and> violates_not_null (updated_row ?vals r)) db"
    using miss by (auto simp: list_ex_iff)
  have "updateProject ident project now db =
      (Inr (find (\<lambda>r. r ''id'' = Some (JStr ident)) db), db)"
    unfolding updateProject_def Let_def unchanged using no_fail by simp
  then show ?thesis by (simp only: not_found)
qed

lemma deleteProject_absent:
  assumes "\<not> has_id db ident"
  shows "deleteProject ident db =
    (Inr [''message'' \<mapsto> JStr ''Project deleted successfully''], db)"
proof -
  have "filter (\<lambda>r. r ''id'' \<noteq> Some (JStr ident)) db = db"
    using assms by (auto simp: filter_id_conv dest: absent_no_hit)
  then show ?thesis by (simp add: deleteProject_def)
qed

lemma data_columns_eq: "data_columns =
    [''companyName'', ''sector'', ''subSector'', ''region'', ''zone'', ''woreda'',
     ''approvalDate'', ''owner'', ''advisorCompany'', ''evaluator'', ''grantedBy'',
     ''contactPerson'', ''ownerPhone'', ''companyEmail'', ''companyWebsite'',
     ''projectStatus'', ''employeesMale'', ''employeesFemale'', ''employeesTotal'']"
  by (simp add: data_columns_def set_columns_def)

lemma required_columns_eq: "required_columns =
    [''companyName'', ''sector'', ''subSector'', ''region'', ''zone'', ''woreda'',
     ''approvalDate'', ''owner'', ''contactPerson'', ''ownerPhone'', ''companyEmail'',
     ''projectStatus'']"
  by (simp add: required_columns_def data_columns_eq not_null_columns_def)

lemma inserted_row_apply:
  "inserted_row project c = (if c \<in> set columns then Some (bind_param (project c)) else None)"
  by (simp add: inserted_row_def columns_def insert_values_def)

lemma updated_row_apply:
  "updated_row (update_values ident project now) r c =
    (if c = ''updatedAt'' then Some (JStr now)
     else if c \<in> set data_columns then Some (bind_param (project c))
     else r c)"
  by (simp add: updated_row_def update_values_def set_columns_def data_columns_eq map_add_def)

lemma str_le_total: "str_le s t \<or> str_le t s"
  by (induction s t rule: str_le.induct) auto

lemma str_le_trans: "str_le s t \<Longrightarrow> str_le t u \<Longrightarrow> str_le s u"
proof (induction s t arbitrary: u rule: str_le.induct)
  case (1 t)
  then show ?case by simp
next
  case (2 x s)
  then show ?case by simp
next
  case (3 x s y t)
  then show ?case by (cases u) auto
qed

lemma sql_le_total: "sql_le a b \<or> sql_le b a"
  by (cases a; cases b) (auto simp: str_le_total)

lemma sql_le_trans: "sql_le a b \<Longrightarrow> sql_le b c \<Longrightarrow> sql_le a c"
  by (cases a; cases b; cases c) (auto intro: str_le_trans)

lemma mset_insert_desc: "mset (insert_desc r xs) = add_mset r (mset xs)"
  by (induction xs) auto

lemma set_insert_desc: "set (insert_desc r xs) = insert r (set xs)"
  by (induction xs) auto

lemma newest_first_insert_desc:
  "newest_first xs \<Longrightarrow> newest_first (insert_desc r xs)"
proof (induction xs)
  case Nil
  then show ?case by (simp add: newest_first_def)
next
  case (Cons x xs)
  show ?case
  proof (cases "sql_le (createdAt_of x) (createdAt_of r)")
    case True
    with Cons.prems show ?thesis
      by (auto simp: newest_first_def intro: sql_le_trans)
  next
    case False
    then have "sql_le (createdAt_of r) (createdAt_of x)"
      using sql_le_total by blast
    with False Cons show ?thesis
      by (auto simp: newest_first_def set_insert_desc)
  qed
qed

lemma mset_order_by: "mset (order_by_createdAt_desc db) = mset db"
  by (induction db) (simp_all add: order_by_createdAt_desc_def mset_insert_desc)

lemma newest_first_order_by: "newest_first (order_by_createdAt_desc db)"
proof (induction db)
  case Nil
  then show ?case by (simp add: order_by_createdAt_desc_def newest_first_def)
next
  case (Cons r db)
  then show ?case
    using newest_first_insert_desc [of "order_by_createdAt_desc db" r]
    by (simp add: order_by_createdAt_desc_def)
qed

lemma createProject_ok:
  assumes "\<not> violates_not_null (inserted_row p)" and "\<not> id_taken db (bind_param (p ''id''))"
  shows "createProject p db = (Inr p, db @ [inserted_row p])"
  using assms by (simp add: createProject_def Let_def inserted_row_apply columns_def)

lemma createProject_fail:
  assumes "violates_not_null (inserted_row p) \<or> id_taken db (bind_param (p ''id''))"
  shows "createProject p db = (Inl SQLITE_CONSTRAINT, db)"
  using assms by (auto simp add: createProject_def Let_def inserted_row_apply columns_def)

lemma newProject_apply:
  "newProject now_id body t1 t2 c =
    (if c = ''updatedAt'' then Some (JStr t2)
     else if c = ''createdAt'' then Some (JStr t1)
     else if c = ''id'' then (case body ''id'' of None \<Rightarrow> Some (JStr now_id) | Some v \<Rightarrow> Some v)
     else body c)"
  by (simp add: newProject_def map_add_def split: option.splits)

lemma not_null_newProject:
  "violates_not_null (inserted_row (newProject now_id body t1 t2)) = (\<not> supplies_required body)"
  by (simp add: violates_not_null_def supplies_required_def required_columns_eq
      not_null_columns_def inserted_row_apply newProject_apply columns_def)

lemma id_taken_JStr: "id_taken db (JStr i) = has_id db i"
  by (simp add: id_taken_def has_id_def)

lemma not_null_updated_row:
  "violates_not_null (updated_row (update_values ident project now) r) =
    (\<not> supplies_required project \<or> r ''createdAt'' = Some JNull)"
  by (simp add: violates_not_null_def supplies_required_def required_columns_eq
      not_null_columns_def updated_row_apply data_columns_eq)

lemma updated_row_id:
  "updated_row (update_values ident project now) r ''id'' = r ''id''"
  by (simp add: updated_row_apply data_columns_eq)

lemma updated_row_createdAt:
  "updated_row (update_values ident project now) r ''createdAt'' = r ''createdAt''"
  by (simp add: updated_row_apply data_columns_eq)

lemma find_map_update:
  assumes "\<And>x. P (g x) = P x"
  shows "find P (map (\<lambda>x. if P x then g x else x) xs) = map_option g (find P xs)"
  using assms by (induction xs) auto

lemma wf_row_createdAt: "wf_row r \<Longrightarrow> r ''createdAt'' \<noteq> Some JNull"
  by (simp add: wf_row_def violates_not_null_def not_null_columns_def)

lemma wf_row_defined: "wf_row r \<Longrightarrow> c \<in> set columns \<Longrightarrow> r c \<noteq> None"
  by (auto simp: wf_row_def list_all_iff)

lemma wf_table_row: "wf_table db \<Longrightarrow> r \<in> set db \<Longrightarrow> wf_row r"
  by (auto simp: wf_table_def list_all_iff)

lemma wf_table_unique:
  assumes "wf_table db" "x \<in> set db" "y \<in> set db" "x ''id'' = y ''id''" "x ''id'' \<noteq> Some JNull"
  shows "x = y"
proof -
  let ?keep = "\<lambda>r. r ''id'' \<noteq> Some JNull"
  have "filter (\<lambda>v. v \<noteq> Some JNull) (map (\<lambda>r. r ''id'') db) = map (\<lambda>r. r ''id'') (filter ?keep db)"
    by (simp add: filter_map comp_def)
  with assms(1) have "distinct (map (\<lambda>r. r ''id'') (filter ?keep db))"
    by (simp add: wf_table_def)
  then have inj: "inj_on (\<lambda>r. r ''id'') (set (filter ?keep db))"
    by (simp add: distinct_map)
  have mem: "x \<in> set (filter ?keep db)" "y \<in> set (filter ?keep db)"
    using assms by auto
  show ?thesis
    using inj_onD [OF inj _ mem] assms(4) by blast
qed

lemma updateProject_succeeds:
  assumes "supplies_required project" and "list_all wf_row db"
  shows "updateProject ident project now db =
    (Inr (map_option (updated_row (update_values ident project now))
            (find (\<lambda>r. r ''id'' = Some (JStr ident)) db)),
     map (\<lambda>r. if r ''id'' = Some (JStr ident)
              then updated_row (update_values ident project now) r else r) db)"
proof -
  let ?vals = "update_values ident project now"
  let ?hit = "\<lambda>r. r ''id'' = Some (JStr ident)"
  have "\<not> list_ex (\<lambda>r. where_id ?vals r \<and> violates_not_null (updated_row ?vals r)) db"
    using assms
    by (auto simp: list_ex_iff list_all_iff not_null_updated_row dest: wf_row_createdAt)
  moreover have "find ?hit (map (\<lambda>r. if ?hit r then updated_row ?vals r else r) db) =
      map_option (updated_row ?vals) (find ?hit db)"
    by (rule find_map_update) (simp add: updated_row_id)
  ultimately show ?thesis
    by (simp add: updateProject_def Let_def where_id_update_values)
qed

lemma updateProject_rejects:
  assumes "r \<in> set db" and "r ''id'' = Some (JStr ident)" and "\<not> supplies_required project"
  shows "updateProject ident project now db = (Inl SQLITE_CONSTRAINT, db)"
proof -
  let ?vals = "update_values ident project now"
  have "where_id ?vals r \<and> violates_not_null (updated_row ?vals r)"
    using assms(2,3) by (simp add: where_id_update_values not_null_updated_row)
  with assms(1) have "list_ex (\<lambda>r. where_id ?vals r \<and> violates_not_null (updated_row ?vals r)) db"
    unfolding list_ex_iff by blast
  then show ?thesis
    by (simp add: updateProject_def Let_def)
qed

lemma find_has_id:
  "has_id db ident \<Longrightarrow> \<exists>r. find (\<lambda>r. r ''id'' = Some (JStr ident)) db = Some r"
  by (cases "find (\<lambda>r. r ''id'' = Some (JStr ident)) db")
     (auto simp: has_id_def list_ex_iff find_None_iff)

lemma find_SomeD: "find P xs = Some x \<Longrightarrow> x \<in> set xs \<and> P x"
  by (induction xs) (auto split: if_splits)

text \<open>Every operation keeps the store well-formed.\<close>

lemma wf_table_Nil: "wf_table []"
  by (simp add: wf_table_def)

lemma ids_filter_map:
  "filter (\<lambda>v. v \<noteq> Some JNull) (map (\<lambda>r. r ''id'') db) =
    map (\<lambda>r. r ''id'') (filter (\<lambda>r. r ''id'' \<noteq> Some JNull) db)"
  by (simp add: filter_map comp_def)

lemma wf_row_inserted_row:
  "\<not> violates_not_null (inserted_row p) \<Longrightarrow> wf_row (inserted_row p)"
  by (simp add: wf_row_def inserted_row_apply list_all_iff)

lemma wf_table_createProject:
  assumes "wf_table db"
  shows "wf_table (snd (createProject p db))"
proof (cases "violates_not_null (inserted_row p) \<or> id_taken db (bind_param (p ''id''))")
  case True
  then show ?thesis
    using assms by (simp add: createProject_fail)
next
  case False
  let ?row = "inserted_row p"
  have row_id: "?row ''id'' = Some (bind_param (p ''id''))"
    by (simp add: inserted_row_apply columns_def)
  have fresh: "?row ''id'' \<noteq> Some JNull \<Longrightarrow> ?row ''id'' \<notin> (\<lambda>r. r ''id'') ` set db"
    using False by (auto simp: row_id id_taken_def list_ex_iff)
  have "distinct (filter (\<lambda>v. v \<noteq> Some JNull) (map (\<lambda>r. r ''id'') (db @ [?row])))"
    using assms fresh by (auto simp: wf_table_def)
  moreover have "list_all wf_row (db @ [?row])"
    using assms False by (simp add: wf_table_def wf_row_inserted_row)
  ultimately show ?thesis
    using False by (simp add: createProject_ok wf_table_def)
qed

lemma wf_row_updated_row:
  assumes "wf_row r" and "\<not> violates_not_null (updated_row (update_values i p now) r)"
  shows "wf_row (updated_row (update_values i p now) r)"
  using assms by (auto simp: wf_row_def list_all_iff updated_row_apply)

lemma wf_table_updateProject:
  assumes "wf_table db"
  shows "wf_table (snd (updateProject i p now db))"
proof -
  let ?vals = "update_values i p now"
  let ?fail = "list_ex (\<lambda>r. where_id ?vals r \<and> violates_not_null (updated_row ?vals r)) db"
  let ?db' = "map (\<lambda>r. if where_id ?vals r then updated_row ?vals r else r) db"
  show ?thesis
  proof (cases ?fail)
    case True
    then show ?thesis
      using assms by (simp add: updateProject_def Let_def)
  next
    case False
    have ids: "map (\<lambda>r. r ''id'') ?db' = map (\<lambda>r. r ''id'') db"
      by (simp add: updated_row_id)
    have rows: "list_all wf_row ?db'"
      using assms False
      by (auto simp: wf_table_def list_all_iff list_ex_iff intro: wf_row_updated_row)
    have "wf_table ?db'"
      unfolding wf_table_def ids using assms rows by (simp add: wf_table_def)
    with False show ?thesis
      by (simp add: updateProject_def Let_def)
  qed
qed

lemma wf_table_deleteProject:
  assumes "wf_table db"
  shows "wf_table (snd (deleteProject i db))"
proof -
  let ?keep = "\<lambda>r. r ''id'' \<noteq> Some (JStr i)"
  have "distinct (map (\<lambda>r. r ''id'') (filter (\<lambda>r. r ''id'' \<noteq> Some JNull) db))"
    using assms by (simp add: wf_table_def ids_filter_map)
  then have "distinct (map (\<lambda>r. r ''id'') (filter ?keep (filter (\<lambda>r. r ''id'' \<noteq> Some JNull) db)))"
    by (rule distinct_map_filter)
  then have "distinct (map (\<lambda>r. r ''id'') (filter (\<lambda>r. r ''id'' \<noteq> Some JNull) (filter ?keep db)))"
    by (simp add: conj_commute)
  moreover have "list_all wf_row (filter ?keep db)"
    using assms by (simp add: wf_table_def list_all_iff)
  ultimately show ?thesis
    by (simp add: deleteProject_def wf_table_def ids_filter_map)
qed

lemma post_projects_ok:
  assumes "supplies_required body"
      and "\<not> id_taken db (bind_param (newProject now_id body t1 t2 ''id''))"
  shows "post_projects now_id body t1 t2 db =
    (\<lparr>status = 201, payload = Json_object (newProject now_id body t1 t2)\<rparr>,
     db @ [inserted_row (newProject now_id body t1 t2)])"
  using assms by (simp add: post_projects_def createProject_ok not_null_newProject)

lemma post_projects_fail:
  assumes "\<not> supplies_required body \<or> id_taken db (bind_param (newProject now_id body t1 t2 ''id''))"
  shows "post_projects now_id body t1 t2 db = (error_response ''Failed to create project'', db)"
  using assms by (simp add: post_projects_def createProject_fail not_null_newProject)

lemma wf_table_single: "wf_row r \<Longrightarrow> wf_table [r]"
  by (simp add: wf_table_def)

section \<open>The matcher finds what the pattern describes\<close>

lemma Nil_in_conc: "[] \<in> conc A B \<longleftrightarrow> [] \<in> A \<and> [] \<in> B"
  by (auto simp: conc_def)

lemma nullable_lang: "nullable r \<longleftrightarrow> [] \<in> lang r"
  by (induction r) (auto simp: Nil_in_conc intro: star.star_empty)

lemma Cons_in_conc:
  "c # w \<in> conc A B \<longleftrightarrow>
    (\<exists>u v. w = u @ v \<and> c # u \<in> A \<and> v \<in> B) \<or> ([] \<in> A \<and> c # w \<in> B)"
proof
  assume "c # w \<in> conc A B"
  then obtain x y where xy: "c # w = x @ y" "x \<in> A" "y \<in> B"
    by (auto simp: conc_def)
  show "(\<exists>u v. w = u @ v \<and> c # u \<in> A \<and> v \<in> B) \<or> ([] \<in> A \<and> c # w \<in> B)"
  proof (cases x)
    case Nil
    with xy show ?thesis by simp
  next
    case (Cons a u)
    with xy show ?thesis by auto
  qed
next
  assume "(\<exists>u v. w = u @ v \<and> c # u \<in> A \<and> v \<in> B) \<or> ([] \<in> A \<and> c # w \<in> B)"
  then show "c # w \<in> conc A B"
  proof
    assume "\<exists>u v. w = u @ v \<and> c # u \<in> A \<and> v \<in> B"
    then obtain u v where "w = u @ v" "c # u \<in> A" "v \<in> B" by blast
    then have "(c # u) @ v \<in> conc A B"
      unfolding conc_def by blast
    with \<open>w = u @ v\<close> show ?thesis by simp
  next
    assume "[] \<in> A \<and> c # w \<in> B"
    then have "[] @ (c # w) \<in> conc A B"
      unfolding conc_def by blast
    then show ?thesis by simp
  qed
qed

lemma Cons_in_star:
  "c # w \<in> star A \<longleftrightarrow> (\<exists>u v. w = u @ v \<and> c # u \<in> A \<and> v \<in> star A)"
proof
  assume "c # w \<in> star A"
  then show "\<exists>u v. w = u @ v \<and> c # u \<in> A \<and> v \<in> star A"
  proof (induction "c # w" rule: star.induct)
    case (star_step u v)
    show ?case
    proof (cases u)
      case Nil
      with star_step show ?thesis by simp
    next
      case (Cons a u')
      with star_step show ?thesis by auto
    qed
  qed
next
  assume "\<exists>u v. w = u @ v \<and> c # u \<in> A \<and> v \<in> star A"
  then obtain u v where "w = u @ v" "c # u \<in> A" "v \<in> star A" by blast
  then have "(c # u) @ v \<in> star A"
    by (intro star.star_step)
  with \<open>w = u @ v\<close> show "c # w \<in> star A" by simp
qed

lemma conc_deriv:
  assumes "\<And>u. u \<in> A' \<longleftrightarrow> c # u \<in> A"
  shows "w \<in> conc A' B \<longleftrightarrow> (\<exists>u v. w = u @ v \<and> c # u \<in> A \<and> v \<in> B)"
  using assms by (auto simp: conc_def)

lemma deriv_lang: "w \<in> lang (deriv c r) \<longleftrightarrow> c # w \<in> lang r"
proof (induction r arbitrary: w)
  case (RSeq r s)
  have "w \<in> conc (lang (deriv c r)) (lang s) \<longleftrightarrow>
      (\<exists>u v. w = u @ v \<and> c # u \<in> lang r \<and> v \<in> lang s)"
    by (rule conc_deriv) (rule RSeq.IH(1))
  then show ?case
    by (simp add: Cons_in_conc nullable_lang RSeq.IH(2))
next
  case (RStar r)
  have "w \<in> conc (lang (deriv c r)) (star (lang r)) \<longleftrightarrow>
      (\<exists>u v. w = u @ v \<and> c # u \<in> lang r \<and> v \<in> star (lang r))"
    by (rule conc_deriv) (rule RStar.IH)
  then show ?case
    by (simp add: Cons_in_star)
next
  case (RPlus r)
  have "w \<in> conc (lang (deriv c r)) (star (lang r)) \<longleftrightarrow>
      (\<exists>u v. w = u @ v \<and> c # u \<in> lang r \<and> v \<in> star (lang r))"
    by (rule conc_deriv) (rule RPlus.IH)
  moreover have "c # w \<in> conc (lang r) (star (lang r)) \<longleftrightarrow>
      (\<exists>u v. w = u @ v \<and> c # u \<in> lang r \<and> v \<in> star (lang r))"
    by (auto simp: Cons_in_conc Cons_in_star)
  ultimately show ?case
    by simp
qed auto

lemma match_prefix_lang: "match_prefix r s \<longleftrightarrow> (\<exists>u v. s = u @ v \<and> u \<in> lang r)"
proof (induction s arbitrary: r)
  case Nil
  then show ?case by (simp add: nullable_lang)
next
  case (Cons c s)
  have "(\<exists>u v. c # s = u @ v \<and> u \<in> lang r) \<longleftrightarrow>
      [] \<in> lang r \<or> (\<exists>u v. s = u @ v \<and> c # u \<in> lang r)"
    by (auto simp: Cons_eq_append_conv)
  with Cons show ?case
    by (simp add: nullable_lang deriv_lang)
qed

lemma regex_test_lang: "regex_test r s \<longleftrightarrow> (\<exists>p u v. s = p @ u @ v \<and> u \<in> lang r)"
proof (induction s)
  case Nil
  then show ?case by (simp add: nullable_lang)
next
  case (Cons c s)
  have "(\<exists>p u v. c # s = p @ u @ v \<and> u \<in> lang r) \<longleftrightarrow>
      (\<exists>u v. c # s = u @ v \<and> u \<in> lang r) \<or> (\<exists>p u v. s = p @ u @ v \<and> u \<in> lang r)"
    (is "?l \<longleftrightarrow> ?a \<or> ?b")
  proof
    assume ?l
    then obtain p u v where puv: "c # s = p @ u @ v" "u \<in> lang r" by blast
    show "?a \<or> ?b"
    proof (cases p)
      case Nil
      with puv show ?thesis by auto
    next
      case (Cons a p')
      with puv have "s = p' @ u @ v" by simp
      with puv(2) show ?thesis by blast
    qed
  next
    assume "?a \<or> ?b"
    then show ?l
    proof
      assume ?a
      then obtain u v where "c # s = [] @ u @ v" "u \<in> lang r" by auto
      then show ?l by blast
    next
      assume ?b
      then obtain p u v where "s = p @ u @ v" "u \<in> lang r" by blast
      then have "c # s = (c # p) @ u @ v" by simp
      with \<open>u \<in> lang r\<close> show ?l by blast
    qed
  qed
  with Cons show ?case
    by (simp only: regex_test.simps match_prefix_lang)
qed

lemma star_NotSpace:
  "w \<in> star {[c] | c. \<not> is_space c} \<longleftrightarrow> list_all (\<lambda>c. \<not> is_space c) w"
proof
  assume "w \<in> star {[c] | c. \<not> is_space c}"
  then show "list_all (\<lambda>c. \<not> is_space c) w"
    by (induction rule: star.induct) auto
next
  assume "list_all (\<lambda>c. \<not> is_space c) w"
  then show "w \<in> star {[c] | c. \<not> is_space c}"
  proof (induction w)
    case Nil
    show ?case by (rule star.star_empty)
  next
    case (Cons c w)
    then have "[c] \<in> {[c] | c. \<not> is_space c}" "w \<in> star {[c] | c. \<not> is_space c}"
      by simp_all
    then have "[c] @ w \<in> star {[c] | c. \<not> is_space c}"
      by (rule star.star_step)
    then show ?case by simp
  qed
qed

lemma lang_Plus_NotSpace: "w \<in> lang (RPlus RNotSpace) \<longleftrightarrow> non_space w"
proof (cases w)
  case Nil
  then show ?thesis
    by (simp add: non_space_def Nil_in_conc)
next
  case (Cons c u)
  then show ?thesis
    by (auto simp: non_space_def Cons_in_conc star_NotSpace)
qed

lemma in_conc: "w \<in> conc A B \<longleftrightarrow> (\<exists>u v. w = u @ v \<and> u \<in> A \<and> v \<in> B)"
  by (auto simp: conc_def)

lemma in_conc_single: "w \<in> conc {x} B \<longleftrightarrow> (\<exists>v. w = x @ v \<and> v \<in> B)"
  by (auto simp: conc_def)

lemma lang_email_regex:
  "w \<in> lang email_regex \<longleftrightarrow>
    (\<exists>a b c. w = a @ ''@'' @ b @ ''.'' @ c \<and> non_space a \<and> non_space b \<and> non_space c)"
proof -
  define P where "P = lang (RPlus RNotSpace)"
  have email: "lang email_regex = conc P (conc {''@''} (conc P (conc {''.''} P)))"
    by (simp add: email_regex_def P_def)
  have "w \<in> conc P (conc {''@''} (conc P (conc {''.''} P))) \<longleftrightarrow>
      (\<exists>a b c. w = a @ ''@'' @ b @ ''.'' @ c \<and> a \<in> P \<and> b \<in> P \<and> c \<in> P)"
  proof
    assume "w \<in> conc P (conc {''@''} (conc P (conc {''.''} P)))"
    then obtain a v1 where 1: "w = a @ v1" "a \<in> P" "v1 \<in> conc {''@''} (conc P (conc {''.''} P))"
      unfolding in_conc [of w] by blast
    from 1(3) obtain v2 where 2: "v1 = ''@'' @ v2" "v2 \<in> conc P (conc {''.''} P)"
      unfolding in_conc_single [of v1] by blast
    from 2(2) obtain b v3 where 3: "v2 = b @ v3" "b \<in> P" "v3 \<in> conc {''.''} P"
      unfolding in_conc [of v2] by blast
    from 3(3) obtain c where 4: "v3 = ''.'' @ c" "c \<in> P"
      unfolding in_conc_single [of v3] by blast
    have "w = a @ ''@'' @ b @ ''.'' @ c"
      by (simp only: 1(1) 2(1) 3(1) 4(1))
    with 1(2) 3(2) 4(2)
    show "\<exists>a b c. w = a @ ''@'' @ b @ ''.'' @ c \<and> a \<in> P \<and> b \<in> P \<and> c \<in> P"
      by blast
  next
    assume "\<exists>a b c. w = a @ ''@'' @ b @ ''.'' @ c \<and> a \<in> P \<and> b \<in> P \<and> c \<in> P"
    then obtain a b c where w: "w = a @ ''@'' @ b @ ''.'' @ c" and P: "a \<in> P" "b \<in> P" "c \<in> P"
      by blast
    have "''.'' @ c \<in> conc {''.''} P"
      unfolding in_conc_single using P(3) by blast
    then have "b @ ''.'' @ c \<in> conc P (conc {''.''} P)"
      unfolding in_conc [of "b @ ''.'' @ c"] using P(2) by blast
    then have "''@'' @ b @ ''.'' @ c \<in> conc {''@''} (conc P (conc {''.''} P))"
      unfolding in_conc_single [of "''@'' @ b @ ''.'' @ c"] by blast
    then have "a @ ''@'' @ b @ ''.'' @ c \<in> conc P (conc {''@''} (conc P (conc {''.''} P)))"
      unfolding in_conc [of "a @ ''@'' @ b @ ''.'' @ c"] using P(1) by blast
    then show "w \<in> conc P (conc {''@''} (conc P (conc {''.''} P)))"
      by (simp only: w)
  qed
  then show ?thesis
    by (simp only: email P_def lang_Plus_NotSpace)
qed

lemma email_regex_test:
  "regex_test email_regex s \<longleftrightarrow>
    (\<exists>p a b c q. s = p @ a @ ''@'' @ b @ ''.'' @ c @ q \<and>
       non_space a \<and> non_space b \<and> non_space c)"
proof -
  have "regex_test email_regex s \<longleftrightarrow> (\<exists>p u v. s = p @ u @ v \<and> u \<in> lang email_regex)"
    by (rule regex_test_lang)
  also have "\<dots> \<longleftrightarrow> (\<exists>p a b c q. s = p @ (a @ ''@'' @ b @ ''.'' @ c) @ q \<and>
       non_space a \<and> non_space b \<and> non_space c)"
    unfolding lang_email_regex by blast
  finally show ?thesis
    by (simp only: append_assoc)
qed

section \<open>Properties of the form\<close>

lemma find_Some_iff_ex: "(\<exists>x. find P xs = Some x) = (\<exists>x \<in> set xs. P x)"
  by (induction xs) auto

lemma required_trimmed_lookup:
  "map_of (required_trimmed t name v) k =
    (if k = name \<and> trim v = [] then Some (t ''form.required'') else None)"
  by (simp add: required_trimmed_def)

lemma required_present_lookup:
  "map_of (required_present t name v) k =
    (if k = name \<and> v = [] then Some (t ''form.required'') else None)"
  by (simp add: required_present_def)

lemma email_errors_lookup:
  "map_of (email_errors t v) k =
    (if k \<noteq> ''companyEmail'' then None
     else if trim v = [] then Some (t ''form.required'')
     else if \<not> regex_test email_regex v then Some ''Invalid email format''
     else None)"
  by (simp add: email_errors_def)

lemma duplicate_errors_lookup:
  "map_of (duplicate_errors blocked) k =
    (if k = ''duplicate'' \<and> blocked
     then Some ''Cannot create duplicate project. Please modify the company name, sector, or region.''
     else None)"
  by (simp add: duplicate_errors_def)

lemmas error_lookups =
  required_trimmed_lookup required_present_lookup email_errors_lookup duplicate_errors_lookup

lemma validateForm_errors_eq:
  "fst (validateForm t fd blocked) =
     required_trimmed t ''companyName'' (companyName fd) @
     required_present t ''sector'' (sector fd) @
     required_present t ''subSector'' (subSector fd) @
     required_present t ''region'' (region fd) @
     required_trimmed t ''zone'' (zone fd) @
     required_trimmed t ''woreda'' (woreda fd) @
     required_present t ''approvalDate'' (approvalDate fd) @
     required_trimmed t ''owner'' (owner fd) @
     required_present t ''projectStatus'' (projectStatus fd) @
     required_trimmed t ''contactPerson'' (contactPerson fd) @
     required_trimmed t ''ownerPhone'' (ownerPhone fd) @
     email_errors t (companyEmail fd) @
     duplicate_errors blocked"
  by (simp add: validateForm_def Let_def)

lemma validateForm_companyName:
  "map_of (fst (validateForm t fd blocked)) ''companyName'' =
    (if trim (companyName fd) = [] then Some (t ''form.required'') else None)"
  by (simp add: validateForm_errors_eq error_lookups map_add_def)

lemma validateForm_sector:
  "map_of (fst (validateForm t fd blocked)) ''sector'' =
    (if sector fd = [] then Some (t ''form.required'') else None)"
  by (simp add: validateForm_errors_eq error_lookups map_add_def)

lemma validateForm_subSector:
  "map_of (fst (validateForm t fd blocked)) ''subSector'' =
    (if subSector fd = [] then Some (t ''form.required'') else None)"
  by (simp add: validateForm_errors_eq error_lookups map_add_def)

lemma validateForm_region:
  "map_of (fst (validateForm t fd blocked)) ''region'' =
    (if region fd = [] then Some (t ''form.required'') else None)"
  by (simp add: validateForm_errors_eq error_lookups map_add_def)

lemma validateForm_zone:
  "map_of (fst (validateForm t fd blocked)) ''zone'' =
    (if trim (zone fd) = [] then Some (t ''form.required'') else None)"
  by (simp add: validateForm_errors_eq error_lookups map_add_def)

lemma validateForm_woreda:
  "map_of (fst (validateForm t fd blocked)) ''woreda'' =
    (if trim (woreda fd) = [] then Some (t ''form.required'') else None)"
  by (simp add: validateForm_errors_eq error_lookups map_add_def)

lemma validateForm_approvalDate:
  "map_of (fst (validateForm t fd blocked)) ''approvalDate'' =
    (if approvalDate fd = [] then Some (t ''form.required'') else None)"
  by (simp add: validateForm_errors_eq error_lookups map_add_def)

lemma validateForm_owner:
  "map_of (fst (validateForm t fd blocked)) ''owner'' =
    (if trim (owner fd) = [] then Some (t ''form.required'') else None)"
  by (simp add: validateForm_errors_eq error_lookups map_add_def)

lemma validateForm_projectStatus:
  "map_of (fst (validateForm t fd blocked)) ''projectStatus'' =
    (if projectStatus fd = [] then Some (t ''form.required'') else None)"
  by (simp add: validateForm_errors_eq error_lookups map_add_def)

lemma validateForm_contactPerson:
  "map_of (fst (validateForm t fd blocked)) ''contactPerson'' =
    (if trim (contactPerson fd) = [] then Some (t ''form.required'') else None)"
  by (simp add: validateForm_errors_eq error_lookups map_add_def)

lemma validateForm_ownerPhone:
  "map_of (fst (validateForm t fd blocked)) ''ownerPhone'' =
    (if trim (ownerPhone fd) = [] then Some (t ''form.required'') else None)"
  by (simp add: validateForm_errors_eq error_lookups map_add_def)

lemma validateForm_companyEmail:
  "map_of (fst (validateForm t fd blocked)) ''companyEmail'' =
    (if trim (companyEmail fd) = [] then Some (t ''form.required'')
     else if \<not> regex_test email_regex (companyEmail fd) then Some ''Invalid email format''
     else None)"
  by (simp add: validateForm_errors_eq error_lookups map_add_def)

lemma validateForm_duplicate:
  "map_of (fst (validateForm t fd blocked)) ''duplicate'' =
    (if blocked
     then Some ''Cannot create duplicate project. Please modify the company name, sector, or region.''
     else None)"
  by (simp add: validateForm_errors_eq error_lookups map_add_def)

lemma required_trimmed_Nil: "required_trimmed t name v = [] \<longleftrightarrow> trim v \<noteq> []"
  by (simp add: required_trimmed_def)

lemma required_present_Nil: "required_present t name v = [] \<longleftrightarrow> v \<noteq> []"
  by (simp add: required_present_def)

lemma email_errors_Nil:
  "email_errors t v = [] \<longleftrightarrow> trim v \<noteq> [] \<and> regex_test email_regex v"
  by (simp add: email_errors_def)

lemma duplicate_errors_Nil: "duplicate_errors blocked = [] \<longleftrightarrow> \<not> blocked"
  by (simp add: duplicate_errors_def)

lemma subseq_required_trimmed: "subseq (map fst (required_trimmed t name v)) [name]"
  by (simp add: required_trimmed_def)

lemma subseq_required_present: "subseq (map fst (required_present t name v)) [name]"
  by (simp add: required_present_def)

lemma subseq_email_errors: "subseq (map fst (email_errors t v)) [''companyEmail'']"
  by (simp add: email_errors_def)

lemma subseq_duplicate_errors: "subseq (map fst (duplicate_errors blocked)) [''duplicate'']"
  by (simp add: duplicate_errors_def)

lemma subseq_Cons_append:
  "subseq xs [k] \<Longrightarrow> subseq ys ks \<Longrightarrow> subseq (xs @ ys) (k # ks)"
  using list_emb_append_mono [of "(=)" xs "[k]" ys ks] by simp

lemma validateForm_names:
  "subseq (map fst (fst (validateForm t fd blocked)))
     [''companyName'', ''sector'', ''subSector'', ''region'', ''zone'', ''woreda'',
      ''approvalDate'', ''owner'', ''projectStatus'', ''contactPerson'', ''ownerPhone'',
      ''companyEmail'', ''duplicate'']"
  unfolding validateForm_errors_eq map_append
  by (intro subseq_Cons_append subseq_required_trimmed subseq_required_present
      subseq_email_errors subseq_duplicate_errors)

lemma editable_inputs_eq:
  "editable_inputs =
    [''companyName'', ''owner'', ''sector'', ''subSector'', ''region'', ''zone'', ''woreda'',
     ''approvalDate'', ''projectStatus'', ''contactPerson'', ''ownerPhone'', ''companyEmail'',
     ''companyWebsite'', ''advisorCompany'', ''evaluator'', ''grantedBy'', ''employeesMale'',
     ''employeesFemale'']"
  by (simp add: editable_inputs_def form_inputs_def)

lemma formData_handleChange:
  "formData (handleChange Number st name v) =
    (let prev = formData st;
         newData = (if includes' name ''employees''
                    then assign_number name (Number v) prev
                    else assign_text name v prev)
     in if name = ''employeesMale'' then
          newData\<lparr>employeesTotal := Number v + employeesFemale prev\<rparr>
        else if name = ''employeesFemale'' then
          newData\<lparr>employeesTotal := employeesMale prev + Number v\<rparr>
        else newData)"
  by (simp add: handleChange_def Let_def)

lemma handleChange_male:
  "formData (handleChange Number st ''employeesMale'' v) =
    (formData st)\<lparr>employeesMale := Number v,
                  employeesTotal := Number v + employeesFemale (formData st)\<rparr>"
  by (simp add: formData_handleChange assign_number_def Let_def)

lemma handleChange_female:
  "formData (handleChange Number st ''employeesFemale'' v) =
    (formData st)\<lparr>employeesFemale := Number v,
                  employeesTotal := employeesMale (formData st) + Number v\<rparr>"
  by (simp add: formData_handleChange assign_number_def Let_def)

lemma assign_text_employees:
  "employeesMale (assign_text name v fd) = employeesMale fd"
  "employeesFemale (assign_text name v fd) = employeesFemale fd"
  "employeesTotal (assign_text name v fd) = employeesTotal fd"
  by (simp_all add: assign_text_def)

lemma editable_inputs_employees:
  "list_all (\<lambda>name. name = ''employeesMale'' \<or> name = ''employeesFemale'' \<or>
      \<not> includes' name ''employees'') editable_inputs"
  unfolding editable_inputs_eq by simp

lemma text_input_not_employees:
  assumes "name \<in> set editable_inputs" "name \<noteq> ''employeesMale''" "name \<noteq> ''employeesFemale''"
  shows "\<not> includes' name ''employees''"
  using assms editable_inputs_employees by (auto simp only: list_all_iff)

lemma handleChange_text:
  assumes "name \<in> set editable_inputs" "name \<noteq> ''employeesMale''" "name \<noteq> ''employeesFemale''"
  shows "formData (handleChange Number st name v) = assign_text name v (formData st)"
  using text_input_not_employees [OF assms] assms(2,3)
  by (simp add: formData_handleChange Let_def)

section \<open>Properties of the dashboard\<close>

lemma foldl_plus: "foldl (\<lambda>sum p. sum + f p) a ps = a + (\<Sum>p\<leftarrow>ps. (f p :: int))"
  by (induction ps arbitrary: a) simp_all

lemma length_filter_count: "length (filter (\<lambda>p. f p = k) ps) = count_list (map f ps) k"
  by (induction ps) simp_all

lemma percentage_zero_total:
  assumes "totalEmployees st = 0"
  shows "malePercentage st =
      (if maleEmployees st = 0 then NaN
       else if 0 < maleEmployees st then PosInfinity else NegInfinity)"
    and "femalePercentage st =
      (if femaleEmployees st = 0 then NaN
       else if 0 < femaleEmployees st then PosInfinity else NegInfinity)"
  using assms by (simp_all add: malePercentage_def femalePercentage_def js_divide_def)

section \<open>Properties of the example data\<close>

lemma supplies_required_acme: "supplies_required acme"
  by (simp add: supplies_required_def required_columns_eq acme_def)

lemma typed_acme: "typed acme"
  by (simp add: typed_def columns_def acme_def integer_columns_def)

lemma wf_row_acme_row: "wf_row (acme_row i t)"
  by (simp add: wf_row_def acme_row_def inserted_row_apply list_all_iff not_null_newProject
      supplies_required_acme)

lemma acme_row_apply:
  "acme_row i t c =
    (if c = ''updatedAt'' \<or> c = ''createdAt'' then Some (JStr t)
     else if c = ''id'' then Some (JStr i)
     else if c \<in> set columns then Some (bind_param (acme c)) else None)"
  by (simp add: acme_row_def inserted_row_apply newProject_apply acme_def columns_def)

lemma post_projects_acme:
  "post_projects i acme t1 t2 [] =
    (\<lparr>status = 201, payload = Json_object (newProject i acme t1 t2)\<rparr>,
     [inserted_row (newProject i acme t1 t2)])"
  using post_projects_ok [of acme "[]" i t1 t2]
  by (simp add: supplies_required_acme id_taken_def)

lemma typed_acme_with_id: "typed acme_with_id"
  by (simp add: typed_def columns_def acme_with_id_def acme_def integer_columns_def)

lemma supplies_required_acme_with_id: "supplies_required acme_with_id"
  by (simp add: supplies_required_def required_columns_eq acme_with_id_def acme_def)

lemma trim_acme:
  "trim ''Acme'' = ''Acme''" "trim ''Zone 1'' = ''Zone 1''" "trim ''Asayita'' = ''Asayita''"
  "trim ''Abebe'' = ''Abebe''" "trim ''Sara'' = ''Sara''" "trim ''0911000000'' = ''0911000000''"
  "trim ''info@acme.et'' = ''info@acme.et''" "trim '' '' = []" "trim ''acme.et'' = ''acme.et''"
  "trim [CHR 0xA0] = []"
  by (simp_all add: trim_def is_space_def)

lemma email_acme: "regex_test email_regex ''info@acme.et''" "\<not> regex_test email_regex ''acme.et''"
  by code_simp+

section \<open>The claims\<close>

subsection \<open>C1: The total of employees\<close>

text \<open>
  C1 (amended). For every change event of an input of the form that is not read-only: a
  change of employeesMale or of employeesFemale sets that count to the number entered,
  keeps the other count and sets employeesTotal to the sum of both; a change of any other
  input keeps all three; so a form whose employeesTotal is the sum of the two counts keeps
  that property. The input of employeesTotal is read-only and raises no change event.
  The server computes nothing: the row that createProject inserts and the row that
  updateProject writes hold the employeesTotal of the request as it is.
\<close>

theorem handleChange_employeesTotal:
  fixes Number :: "string \<Rightarrow> int" and st :: form_state and name v :: string
  defines "fd \<equiv> formData st" and "fd' \<equiv> formData (handleChange Number st name v)"
  assumes editable: "name \<in> set editable_inputs"
  shows "(name = ''employeesMale'' \<longrightarrow>
       employeesMale fd' = Number v \<and> employeesFemale fd' = employeesFemale fd \<and>
       employeesTotal fd' = employeesMale fd' + employeesFemale fd') \<and>
    (name = ''employeesFemale'' \<longrightarrow>
       employeesFemale fd' = Number v \<and> employeesMale fd' = employeesMale fd \<and>
       employeesTotal fd' = employeesMale fd' + employeesFemale fd') \<and>
    (name \<noteq> ''employeesMale'' \<and> name \<noteq> ''employeesFemale'' \<longrightarrow>
       employeesMale fd' = employeesMale fd \<and> employeesFemale fd' = employeesFemale fd \<and>
       employeesTotal fd' = employeesTotal fd) \<and>
    (employeesTotal fd = employeesMale fd + employeesFemale fd \<longrightarrow>
       employeesTotal fd' = employeesMale fd' + employeesFemale fd') \<and>
    ''employeesTotal'' \<notin> set editable_inputs \<and>
    inserted_row project ''employeesTotal'' = Some (bind_param (project ''employeesTotal'')) \<and>
    updated_row (update_values ident project now) r ''employeesTotal'' =
      Some (bind_param (project ''employeesTotal''))"
proof -
  have male: "employeesMale fd' = Number v \<and> employeesFemale fd' = employeesFemale fd \<and>
       employeesTotal fd' = employeesMale fd' + employeesFemale fd'"
    if "name = ''employeesMale''"
    using that by (simp add: fd'_def fd_def handleChange_male)
  have female: "employeesFemale fd' = Number v \<and> employeesMale fd' = employeesMale fd \<and>
       employeesTotal fd' = employeesMale fd' + employeesFemale fd'"
    if "name = ''employeesFemale''"
    using that by (simp add: fd'_def fd_def handleChange_female)
  have other: "employeesMale fd' = employeesMale fd \<and> employeesFemale fd' = employeesFemale fd \<and>
       employeesTotal fd' = employeesTotal fd"
    if "name \<noteq> ''employeesMale''" "name \<noteq> ''employeesFemale''"
    using handleChange_text [OF editable that] by (simp add: fd'_def fd_def assign_text_employees)
  have kept: "employeesTotal fd' = employeesMale fd' + employeesFemale fd'"
    if "employeesTotal fd = employeesMale fd + employeesFemale fd"
    using male female other that by (cases "name = ''employeesMale''"; cases "name = ''employeesFemale''") simp_all
  have read_only: "''employeesTotal'' \<notin> set editable_inputs"
    by (simp add: editable_inputs_eq)
  have stored: "inserted_row project ''employeesTotal'' =
      Some (bind_param (project ''employeesTotal''))"
    "updated_row (update_values ident project now) r ''employeesTotal'' =
      Some (bind_param (project ''employeesTotal''))"
    by (simp_all add: inserted_row_apply updated_row_apply columns_def data_columns_eq)
  show ?thesis
    using male female other kept read_only stored by blast
qed

theorem handleChange_employeesTotal_witness:
  "''employeesMale'' \<in> set editable_inputs \<and>
   employeesMale (formData (handleChange decimal acme_state ''employeesMale'' ''12'')) = 12 \<and>
   employeesFemale (formData (handleChange decimal acme_state ''employeesMale'' ''12'')) = 2 \<and>
   employeesTotal (formData (handleChange decimal acme_state ''employeesMale'' ''12'')) = 14"
proof -
  have editable: "''employeesMale'' \<in> set editable_inputs"
    by (simp add: editable_inputs_eq)
  have twelve: "decimal ''12'' = 12"
    by (simp add: decimal_def)
  have "formData acme_state = acme_form"
    by (simp add: acme_state_def)
  then show ?thesis
    using editable handleChange_employeesTotal [OF editable, of decimal acme_state "''12''"]
    by (simp add: twelve acme_form_def)
qed

text \<open>
  C1 as stated fails: POST /api/projects with 3 male, 2 female and a total of 99
  employees is answered 201 and the row is stored with the total 99.
\<close>

theorem stored_total_counterexample:
  "status (fst (post_projects ''1736928000000'' acme_inconsistent ''2025-01-15T08:00:00.000Z''
     ''2025-01-15T08:00:00.000Z'' [])) = 201 \<and>
   (snd (post_projects ''1736928000000'' acme_inconsistent ''2025-01-15T08:00:00.000Z''
     ''2025-01-15T08:00:00.000Z'' []) ! 0) ''employeesMale'' = Some (JNum 3) \<and>
   (snd (post_projects ''1736928000000'' acme_inconsistent ''2025-01-15T08:00:00.000Z''
     ''2025-01-15T08:00:00.000Z'' []) ! 0) ''employeesFemale'' = Some (JNum 2) \<and>
   (snd (post_projects ''1736928000000'' acme_inconsistent ''2025-01-15T08:00:00.000Z''
     ''2025-01-15T08:00:00.000Z'' []) ! 0) ''employeesTotal'' = Some (JNum 99)"
proof -
  have "supplies_required acme_inconsistent"
    by (simp add: supplies_required_def required_columns_eq acme_inconsistent_def acme_def)
  then have "post_projects ''1736928000000'' acme_inconsistent ''2025-01-15T08:00:00.000Z''
     ''2025-01-15T08:00:00.000Z'' [] =
    (\<lparr>status = 201, payload = Json_object (newProject ''1736928000000'' acme_inconsistent
        ''2025-01-15T08:00:00.000Z'' ''2025-01-15T08:00:00.000Z'')\<rparr>,
     [inserted_row (newProject ''1736928000000'' acme_inconsistent
        ''2025-01-15T08:00:00.000Z'' ''2025-01-15T08:00:00.000Z'')])"
    using post_projects_ok [of acme_inconsistent "[]"] by (simp add: id_taken_def)
  then show ?thesis
    by (simp add: inserted_row_apply newProject_apply columns_def acme_inconsistent_def acme_def)
qed

subsection \<open>C2: Updating and deleting an id that is not stored\<close>

text \<open>
  C2 (amended). For every id that no stored row carries, \<open>updateProject\<close> resolves
  with no row (the PUT route answers 200 with an empty body) and \<open>deleteProject\<close>
  resolves with its success message (the DELETE route answers 200); neither operation
  changes the store.
\<close>

theorem absent_id_succeeds:
  assumes "\<not> has_id db ident"
  shows "updateProject ident project now db = (Inr None, db) \<and>
    deleteProject ident db = (Inr [''message'' \<mapsto> JStr ''Project deleted successfully''], db) \<and>
    put_project ident project now db = (\<lparr>status = 200, payload = Json_undefined\<rparr>, db) \<and>
    delete_project ident db =
      (\<lparr>status = 200,
        payload = Json_object [''message'' \<mapsto> JStr ''Project deleted successfully'']\<rparr>, db)"
proof -
  have update: "updateProject ident project now db = (Inr None, db)"
    using assms by (rule updateProject_absent)
  have delete: "deleteProject ident db =
      (Inr [''message'' \<mapsto> JStr ''Project deleted successfully''], db)"
    using assms by (rule deleteProject_absent)
  have put: "put_project ident project now db =
      (\<lparr>status = 200, payload = Json_undefined\<rparr>, db)"
    by (simp add: put_project_def update)
  have del: "delete_project ident db =
      (\<lparr>status = 200,
        payload = Json_object [''message'' \<mapsto> JStr ''Project deleted successfully'']\<rparr>, db)"
    by (simp add: delete_project_def delete)
  from update delete put del show ?thesis
    by (intro conjI)
qed

theorem absent_id_succeeds_witness:
  "\<not> has_id [acme_row ''1736928000000'' ''2025-01-15T08:00:00.000Z''] ''42'' \<and>
   updateProject ''42'' acme ''2025-02-01T09:30:00.000Z''
     [acme_row ''1736928000000'' ''2025-01-15T08:00:00.000Z''] =
     (Inr None, [acme_row ''1736928000000'' ''2025-01-15T08:00:00.000Z'']) \<and>
   delete_project ''42'' [acme_row ''1736928000000'' ''2025-01-15T08:00:00.000Z''] =
     (\<lparr>status = 200,
       payload = Json_object [''message'' \<mapsto> JStr ''Project deleted successfully'']\<rparr>,
      [acme_row ''1736928000000'' ''2025-01-15T08:00:00.000Z''])"
proof -
  have absent: "\<not> has_id [acme_row ''1736928000000'' ''2025-01-15T08:00:00.000Z''] ''42''"
    by (simp add: has_id_def acme_row_apply)
  show ?thesis
    using absent absent_id_succeeds [OF absent, of acme "''2025-02-01T09:30:00.000Z''"]
    by simp
qed

text \<open>
  C2 as stated fails: on the empty store, deleting and updating the id 42 both succeed.
\<close>

theorem absent_id_counterexample:
  "fst (deleteProject ''42'' []) =
     Inr [''message'' \<mapsto> JStr ''Project deleted successfully''] \<and>
   status (fst (delete_project ''42'' [])) = 200 \<and>
   fst (updateProject ''42'' acme ''2025-02-01T09:30:00.000Z'' []) = Inr None \<and>
   status (fst (put_project ''42'' acme ''2025-02-01T09:30:00.000Z'' [])) = 200"
  by (simp add: deleteProject_def delete_project_def updateProject_def put_project_def)

subsection \<open>C3: The duplicate check\<close>

text \<open>
  C3 (amended). For every candidate and every set of existing records, the duplicate check
  sets the blocked flag if and only if the company name, the sector and the region of the
  candidate are all non-empty and some existing record, other than the one being edited
  (identified by its id), has the same company name compared case-insensitively and
  exactly the same sector and region. When every existing record with that company name,
  sector and region has the id of the record being edited, nothing is flagged: a record
  is never a duplicate of itself. The warning is the message naming company, sector and
  region when the flag is set, and empty otherwise.
\<close>

theorem duplicate_blocked_iff:
  "(isDuplicateBlocked fd existingProjects editing \<longleftrightarrow>
      companyName fd \<noteq> [] \<and> sector fd \<noteq> [] \<and> region fd \<noteq> [] \<and>
      (\<exists>p \<in> set existingProjects.
         toLowerCase (companyName p) = toLowerCase (companyName fd) \<and>
         sector p = sector fd \<and> region p = region fd \<and>
         (\<forall>q. editing = Some q \<longrightarrow> id' p \<noteq> id' q))) \<and>
   (\<forall>q. editing = Some q \<and>
      (\<forall>p \<in> set existingProjects.
         toLowerCase (companyName p) = toLowerCase (companyName fd) \<and>
         sector p = sector fd \<and> region p = region fd \<longrightarrow> id' p = id' q) \<longrightarrow>
      \<not> isDuplicateBlocked fd existingProjects editing) \<and>
   fst (duplicate_check fd existingProjects editing) =
     (if isDuplicateBlocked fd existingProjects editing then duplicate_message fd else [])"
proof -
  let ?dup = "is_duplicate_of fd editing"
  have dup: "?dup p \<longleftrightarrow>
      toLowerCase (companyName p) = toLowerCase (companyName fd) \<and>
      sector p = sector fd \<and> region p = region fd \<and>
      (\<forall>q. editing = Some q \<longrightarrow> id' p \<noteq> id' q)" for p
    by (cases editing) (simp_all add: is_duplicate_of_def)
  have blocked: "isDuplicateBlocked fd existingProjects editing \<longleftrightarrow>
      companyName fd \<noteq> [] \<and> sector fd \<noteq> [] \<and> region fd \<noteq> [] \<and>
      (\<exists>p \<in> set existingProjects. ?dup p)"
    using find_Some_iff_ex [of ?dup existingProjects]
    by (auto simp: isDuplicateBlocked_def duplicate_check_def split: option.splits)
  have warning: "fst (duplicate_check fd existingProjects editing) =
     (if isDuplicateBlocked fd existingProjects editing then duplicate_message fd else [])"
    by (simp add: isDuplicateBlocked_def duplicate_check_def split: option.splits)
  have self: "\<not> isDuplicateBlocked fd existingProjects editing"
    if "editing = Some q"
      "\<forall>p \<in> set existingProjects.
         toLowerCase (companyName p) = toLowerCase (companyName fd) \<and>
         sector p = sector fd \<and> region p = region fd \<longrightarrow> id' p = id' q" for q
    using that unfolding blocked dup by blast
  show ?thesis
    using blocked warning self by (simp only: dup) blast
qed

theorem duplicate_blocked_iff_witness:
  "isDuplicateBlocked (acme_form\<lparr>companyName := ''ACME''\<rparr>) [acme_project] None \<and>
   \<not> isDuplicateBlocked acme_form [acme_project] (Some acme_project) \<and>
   \<not> isDuplicateBlocked (acme_form\<lparr>region := ''Amhara''\<rparr>) [acme_project] None \<and>
   isDuplicateBlocked (acme_form\<lparr>companyName := [CHR 0xC0, CHR ''b'']\<rparr>)
     [as_project (acme_form\<lparr>companyName := [CHR 0xE0, CHR ''B'']\<rparr>) ''7''
        ''2025-01-19T08:00:00.000Z''] None"
proof -
  have tables: "lower_char CHR 0xC0 = CHR 0xE0" "lower_char CHR 0xE0 = CHR 0xE0"
      "lower_char CHR ''B'' = CHR ''b''" "lower_char CHR ''b'' = CHR ''b''"
    by (simp_all add: lower_char_def upper_letters_def lower_letters_def)
  have ascii: "isDuplicateBlocked (acme_form\<lparr>companyName := ''ACME''\<rparr>) [acme_project] None"
    using duplicate_blocked_iff [of "acme_form\<lparr>companyName := ''ACME''\<rparr>" "[acme_project]" None]
    by (simp add: acme_form_def acme_project_def as_project_def toLowerCase_def lower_char_def
        upper_letters_def lower_letters_def)
  have self: "\<not> isDuplicateBlocked acme_form [acme_project] (Some acme_project)"
    using duplicate_blocked_iff [of acme_form "[acme_project]" "Some acme_project"]
    by (simp add: acme_form_def acme_project_def as_project_def)
  have elsewhere: "\<not> isDuplicateBlocked (acme_form\<lparr>region := ''Amhara''\<rparr>) [acme_project] None"
    using duplicate_blocked_iff [of "acme_form\<lparr>region := ''Amhara''\<rparr>" "[acme_project]" None]
    by (simp add: acme_form_def acme_project_def as_project_def)
  have accented: "isDuplicateBlocked (acme_form\<lparr>companyName := [CHR 0xC0, CHR ''b'']\<rparr>)
     [as_project (acme_form\<lparr>companyName := [CHR 0xE0, CHR ''B'']\<rparr>) ''7''
        ''2025-01-19T08:00:00.000Z''] None"
    using duplicate_blocked_iff [of "acme_form\<lparr>companyName := [CHR 0xC0, CHR ''b'']\<rparr>"
        "[as_project (acme_form\<lparr>companyName := [CHR 0xE0, CHR ''B'']\<rparr>) ''7''
            ''2025-01-19T08:00:00.000Z'']" None]
    by (simp add: acme_form_def as_project_def toLowerCase_def tables)
  from ascii self elsewhere accented show ?thesis
    by (intro conjI)
qed

text \<open>
  C3 as stated fails: a candidate without a sector is not flagged although an existing
  record has the same company name, the same (empty) sector and the same region.
\<close>

theorem duplicate_blocked_counterexample:
  "toLowerCase (companyName (as_project (acme_form\<lparr>sector := []\<rparr>) ''1736928000000''
       ''2025-01-15T08:00:00.000Z'')) =
     toLowerCase (companyName (acme_form\<lparr>sector := []\<rparr>)) \<and>
   sector (as_project (acme_form\<lparr>sector := []\<rparr>) ''1736928000000''
       ''2025-01-15T08:00:00.000Z'') = sector (acme_form\<lparr>sector := []\<rparr>) \<and>
   region (as_project (acme_form\<lparr>sector := []\<rparr>) ''1736928000000''
       ''2025-01-15T08:00:00.000Z'') = region (acme_form\<lparr>sector := []\<rparr>) \<and>
   \<not> isDuplicateBlocked (acme_form\<lparr>sector := []\<rparr>)
       [as_project (acme_form\<lparr>sector := []\<rparr>) ''1736928000000'' ''2025-01-15T08:00:00.000Z'']
       None"
  by (simp add: isDuplicateBlocked_def duplicate_check_def as_project_def acme_form_def)

subsection \<open>C4: Validation of the form\<close>

text \<open>
  C4 (amended). For every form submission: each of companyName, zone, woreda, owner,
  contactPerson and ownerPhone that is empty after trimming, and each of sector, subSector,
  region, approvalDate and projectStatus that is the empty string (these five are not
  trimmed), has the required error under its own name, and no error otherwise; companyEmail
  has the required error when it is empty after trimming, the error "Invalid email format"
  when it is not and does not match the pattern, and no error otherwise; the blocked flag
  gives the error "duplicate"; every name has at most one error; and validation succeeds
  if and only if there is no error, that is, if and only if none of these conditions
  holds.
\<close>

theorem validateForm_result:
  fixes t :: "string \<Rightarrow> string" and fd :: formData and blocked :: bool
  defines "errs \<equiv> fst (validateForm t fd blocked)"
      and "ok \<equiv> snd (validateForm t fd blocked)"
      and "required \<equiv> (\<lambda>missing. if missing then Some (t ''form.required'') else None)"
  shows "map_of errs ''companyName'' = required (trim (companyName fd) = []) \<and>
    map_of errs ''sector'' = required (sector fd = []) \<and>
    map_of errs ''subSector'' = required (subSector fd = []) \<and>
    map_of errs ''region'' = required (region fd = []) \<and>
    map_of errs ''zone'' = required (trim (zone fd) = []) \<and>
    map_of errs ''woreda'' = required (trim (woreda fd) = []) \<and>
    map_of errs ''approvalDate'' = required (approvalDate fd = []) \<and>
    map_of errs ''owner'' = required (trim (owner fd) = []) \<and>
    map_of errs ''projectStatus'' = required (projectStatus fd = []) \<and>
    map_of errs ''contactPerson'' = required (trim (contactPerson fd) = []) \<and>
    map_of errs ''ownerPhone'' = required (trim (ownerPhone fd) = []) \<and>
    map_of errs ''companyEmail'' =
      (if trim (companyEmail fd) = [] then Some (t ''form.required'')
       else if \<not> regex_test email_regex (companyEmail fd) then Some ''Invalid email format''
       else None) \<and>
    map_of errs ''duplicate'' =
      (if blocked
       then Some ''Cannot create duplicate project. Please modify the company name, sector, or region.''
       else None) \<and>
    distinct (map fst errs) \<and>
    (ok \<longleftrightarrow> errs = []) \<and>
    (ok \<longleftrightarrow>
       trim (companyName fd) \<noteq> [] \<and> sector fd \<noteq> [] \<and> subSector fd \<noteq> [] \<and>
       region fd \<noteq> [] \<and> trim (zone fd) \<noteq> [] \<and> trim (woreda fd) \<noteq> [] \<and>
       approvalDate fd \<noteq> [] \<and> trim (owner fd) \<noteq> [] \<and> projectStatus fd \<noteq> [] \<and>
       trim (contactPerson fd) \<noteq> [] \<and> trim (ownerPhone fd) \<noteq> [] \<and>
       trim (companyEmail fd) \<noteq> [] \<and> regex_test email_regex (companyEmail fd) \<and>
       \<not> blocked)"
proof -
  have all_names: "distinct [''companyName'', ''sector'', ''subSector'', ''region'', ''zone'',
      ''woreda'', ''approvalDate'', ''owner'', ''projectStatus'', ''contactPerson'',
      ''ownerPhone'', ''companyEmail'', ''duplicate'']"
    by simp
  have "map fst errs \<in> set (subseqs [''companyName'', ''sector'', ''subSector'', ''region'',
      ''zone'', ''woreda'', ''approvalDate'', ''owner'', ''projectStatus'', ''contactPerson'',
      ''ownerPhone'', ''companyEmail'', ''duplicate''])"
    unfolding in_set_subseqs errs_def by (rule validateForm_names)
  then have names: "distinct (map fst errs)"
    using all_names by (rule subseqs_distinctD)
  have ok_errs: "ok \<longleftrightarrow> errs = []"
    by (simp add: ok_def errs_def validateForm_def Let_def)
  have "errs = [] \<longleftrightarrow>
       trim (companyName fd) \<noteq> [] \<and> sector fd \<noteq> [] \<and> subSector fd \<noteq> [] \<and>
       region fd \<noteq> [] \<and> trim (zone fd) \<noteq> [] \<and> trim (woreda fd) \<noteq> [] \<and>
       approvalDate fd \<noteq> [] \<and> trim (owner fd) \<noteq> [] \<and> projectStatus fd \<noteq> [] \<and>
       trim (contactPerson fd) \<noteq> [] \<and> trim (ownerPhone fd) \<noteq> [] \<and>
       trim (companyEmail fd) \<noteq> [] \<and> regex_test email_regex (companyEmail fd) \<and>
       \<not> blocked"
    unfolding errs_def validateForm_errors_eq append_is_Nil_conv
      required_trimmed_Nil required_present_Nil email_errors_Nil duplicate_errors_Nil
    by (simp only: conj_assoc)
  with ok_errs have ok_fields: "ok \<longleftrightarrow>
       trim (companyName fd) \<noteq> [] \<and> sector fd \<noteq> [] \<and> subSector fd \<noteq> [] \<and>
       region fd \<noteq> [] \<and> trim (zone fd) \<noteq> [] \<and> trim (woreda fd) \<noteq> [] \<and>
       approvalDate fd \<noteq> [] \<and> trim (owner fd) \<noteq> [] \<and> projectStatus fd \<noteq> [] \<and>
       trim (contactPerson fd) \<noteq> [] \<and> trim (ownerPhone fd) \<noteq> [] \<and>
       trim (companyEmail fd) \<noteq> [] \<and> regex_test email_regex (companyEmail fd) \<and>
       \<not> blocked"
    by (simp only:)
  show ?thesis
    unfolding errs_def required_def
    apply (intro conjI)
                   apply (rule validateForm_companyName)
                  apply (rule validateForm_sector)
                 apply (rule validateForm_subSector)
                apply (rule validateForm_region)
               apply (rule validateForm_zone)
              apply (rule validateForm_woreda)
             apply (rule validateForm_approvalDate)
            apply (rule validateForm_owner)
           apply (rule validateForm_projectStatus)
          apply (rule validateForm_contactPerson)
         apply (rule validateForm_ownerPhone)
        apply (rule validateForm_companyEmail)
       apply (rule validateForm_duplicate)
      apply (rule names [unfolded errs_def])
     apply (rule ok_errs [unfolded errs_def])
    apply (rule ok_fields)
    done
qed

theorem validateForm_result_witness:
  "snd (validateForm t_example acme_form False) \<and>
   fst (validateForm t_example acme_form False) = [] \<and>
   \<not> snd (validateForm t_example (acme_form\<lparr>zone := '' '', companyEmail := ''acme.et''\<rparr>) False) \<and>
   map_of (fst (validateForm t_example (acme_form\<lparr>zone := '' '', companyEmail := ''acme.et''\<rparr>)
     False)) ''zone'' = Some ''This field is required'' \<and>
   map_of (fst (validateForm t_example (acme_form\<lparr>zone := '' '', companyEmail := ''acme.et''\<rparr>)
     False)) ''companyEmail'' = Some ''Invalid email format'' \<and>
   \<not> snd (validateForm t_example acme_form True) \<and>
   \<not> snd (validateForm t_example (acme_form\<lparr>zone := [CHR 0xA0]\<rparr>) False) \<and>
   map_of (fst (validateForm t_example (acme_form\<lparr>zone := [CHR 0xA0]\<rparr>) False)) ''zone'' =
     Some ''This field is required''"
proof -
  let ?bad = "acme_form\<lparr>zone := '' '', companyEmail := ''acme.et''\<rparr>"
  let ?nbsp = "acme_form\<lparr>zone := [CHR 0xA0]\<rparr>"
  have good: "snd (validateForm t_example acme_form False)"
      "fst (validateForm t_example acme_form False) = []"
    using validateForm_result [of t_example acme_form False]
    by (auto simp: acme_form_def trim_acme email_acme simp del: regex_test.simps)
  have bad: "\<not> snd (validateForm t_example ?bad False)"
      "map_of (fst (validateForm t_example ?bad False)) ''zone'' = Some ''This field is required''"
      "map_of (fst (validateForm t_example ?bad False)) ''companyEmail'' =
        Some ''Invalid email format''"
    using validateForm_result [of t_example ?bad False]
    by (auto simp: acme_form_def trim_acme email_acme t_example_def simp del: regex_test.simps)
  have blocked: "\<not> snd (validateForm t_example acme_form True)"
    using validateForm_result [of t_example acme_form True]
    by (auto simp: acme_form_def trim_acme email_acme simp del: regex_test.simps)
  have nbsp: "\<not> snd (validateForm t_example ?nbsp False)"
      "map_of (fst (validateForm t_example ?nbsp False)) ''zone'' = Some ''This field is required''"
    using validateForm_result [of t_example ?nbsp False]
    by (auto simp: acme_form_def trim_acme email_acme t_example_def simp del: regex_test.simps)
  from good bad blocked nbsp show ?thesis
    by (intro conjI)
qed

text \<open>
  C4 as stated fails: a sector that consists of one space is empty after trimming, and
  the submission is accepted without any error.
\<close>

theorem validateForm_counterexample:
  "trim (sector (acme_form\<lparr>sector := '' ''\<rparr>)) = [] \<and>
   snd (validateForm t_example (acme_form\<lparr>sector := '' ''\<rparr>) False) \<and>
   fst (validateForm t_example (acme_form\<lparr>sector := '' ''\<rparr>) False) = []"
  by (simp add: validateForm_def Let_def required_trimmed_def required_present_def
      email_errors_def duplicate_errors_def acme_form_def trim_acme email_acme
      del: regex_test.simps)

subsection \<open>C5: The aggregation of the dashboard\<close>

text \<open>
  C5. For every list of projects and every metadata: totalProjects is the number of
  records; totalEmployees, maleEmployees and femaleEmployees are the sums of the respective
  fields over all records; completedProjects and inProgressProjects are the numbers of
  records whose status is "Completed" and "In Progress"; the sector chart has, for each
  sector of the metadata in order, the number of records of that sector and the sum of
  their employeesTotal; the status chart has the number of records of each status; the
  region chart has the number of records of each region and the sum of their
  employeesTotal. Without metadata the three charts are empty.
\<close>

theorem dashboard_aggregation:
  fixes projects :: "project list" and m :: metadata
  shows "totalProjects (stats projects) = length projects \<and>
    totalEmployees (stats projects) = (\<Sum>p\<leftarrow>projects. employeesTotal p) \<and>
    maleEmployees (stats projects) = (\<Sum>p\<leftarrow>projects. employeesMale p) \<and>
    femaleEmployees (stats projects) = (\<Sum>p\<leftarrow>projects. employeesFemale p) \<and>
    completedProjects (stats projects) = count_list (map projectStatus projects) ''Completed'' \<and>
    inProgressProjects (stats projects) =
      count_list (map projectStatus projects) ''In Progress'' \<and>
    sectorData projects (Some m) =
      map (\<lambda>s. (s, count_list (map sector projects) s,
                (\<Sum>p\<leftarrow>filter (\<lambda>p. sector p = s) projects. employeesTotal p)))
          (sectors m) \<and>
    statusData projects (Some m) =
      map (\<lambda>s. (s, count_list (map projectStatus projects) s)) (projectStatuses m) \<and>
    regionData projects (Some m) =
      map (\<lambda>r. (r, count_list (map region projects) r,
                (\<Sum>p\<leftarrow>filter (\<lambda>p. region p = r) projects. employeesTotal p)))
          (regions m) \<and>
    sectorData projects None = [] \<and> statusData projects None = [] \<and>
    regionData projects None = []"
proof -
  have sums: "foldl (\<lambda>sum p. sum + f p) 0 ps = (\<Sum>p\<leftarrow>ps. f p)"
    for f :: "project \<Rightarrow> int" and ps
    by (simp add: foldl_plus)
  have counts: "length (filter (\<lambda>p. f p = k) projects) = count_list (map f projects) k"
    for f :: "project \<Rightarrow> string" and k
    by (rule length_filter_count)
  have totals: "totalProjects (stats projects) = length projects"
      "totalEmployees (stats projects) = (\<Sum>p\<leftarrow>projects. employeesTotal p)"
      "maleEmployees (stats projects) = (\<Sum>p\<leftarrow>projects. employeesMale p)"
      "femaleEmployees (stats projects) = (\<Sum>p\<leftarrow>projects. employeesFemale p)"
    by (simp_all add: stats_def sums)
  have statuses:
      "completedProjects (stats projects) = count_list (map projectStatus projects) ''Completed''"
      "inProgressProjects (stats projects) =
        count_list (map projectStatus projects) ''In Progress''"
    by (simp_all add: stats_def counts)
  have charts:
      "sectorData projects (Some m) =
        map (\<lambda>s. (s, count_list (map sector projects) s,
                  (\<Sum>p\<leftarrow>filter (\<lambda>p. sector p = s) projects. employeesTotal p)))
            (sectors m)"
      "statusData projects (Some m) =
        map (\<lambda>s. (s, count_list (map projectStatus projects) s)) (projectStatuses m)"
      "regionData projects (Some m) =
        map (\<lambda>r. (r, count_list (map region projects) r,
                  (\<Sum>p\<leftarrow>filter (\<lambda>p. region p = r) projects. employeesTotal p)))
            (regions m)"
    by (simp_all add: sectorData_def statusData_def regionData_def sums counts)
  have no_metadata: "sectorData projects None = []" "statusData projects None = []"
      "regionData projects None = []"
    by (simp_all add: sectorData_def statusData_def regionData_def)
  from totals statuses charts no_metadata show ?thesis
    by (intro conjI)
qed

theorem dashboard_aggregation_witness:
  "totalProjects (stats three_projects) = 3 \<and>
   totalEmployees (stats three_projects) = 60 \<and>
   maleEmployees (stats three_projects) = 29 \<and>
   femaleEmployees (stats three_projects) = 31 \<and>
   completedProjects (stats three_projects) = 1 \<and>
   inProgressProjects (stats three_projects) = 1 \<and>
   sectorData three_projects (Some server_metadata) =
     [(''Health'', 2, 30), (''Industry'', 1, 30), (''Agriculture'', 0, 0)] \<and>
   statusData three_projects (Some server_metadata) =
     [(''Planning'', 1), (''In Progress'', 1), (''Completed'', 1), (''On Hold'', 0),
      (''Cancelled'', 0)]"
  using dashboard_aggregation [of three_projects server_metadata]
  by (simp add: three_projects_def as_project_def acme_form_def server_metadata_def)

subsection \<open>C6: Creating a project\<close>

text \<open>
  C6 (amended). For every typed body without \<open>id\<close>, \<open>createdAt\<close> and
  \<open>updatedAt\<close> that supplies the required fields, and every store in which the id
  read from the clock is not taken, POST /api/projects answers 201 with the record whose
  \<open>id\<close> is the clock reading, whose \<open>createdAt\<close> and \<open>updatedAt\<close> are the
  two later readings of the clock (equal when the two readings are equal) and whose other
  properties are those of the body; it appends one row to the store, which holds the
  value of the returned record in every column.
\<close>

theorem post_projects_creates:
  assumes "body ''id'' = None" and "body ''createdAt'' = None" and "body ''updatedAt'' = None"
      and "supplies_required body" and "typed body" and "\<not> has_id db now_id"
  shows "\<exists>project row.
     post_projects now_id body t1 t2 db =
       (\<lparr>status = 201, payload = Json_object project\<rparr>, db @ [row]) \<and>
     project ''id'' = Some (JStr now_id) \<and>
     project ''createdAt'' = Some (JStr t1) \<and>
     project ''updatedAt'' = Some (JStr t2) \<and>
     (\<forall>c. c \<notin> {''id'', ''createdAt'', ''updatedAt''} \<longrightarrow> project c = body c) \<and>
     (\<forall>c \<in> set columns. row c = Some (bind_param (project c))) \<and>
     (t1 = t2 \<longrightarrow> project ''createdAt'' = project ''updatedAt'')"
proof -
  let ?p = "newProject now_id body t1 t2"
  have ident: "?p ''id'' = Some (JStr now_id)"
    using assms(1) by (simp add: newProject_apply)
  have "\<not> id_taken db (bind_param (?p ''id''))"
    using assms(6) by (simp add: ident id_taken_JStr)
  then have posted: "post_projects now_id body t1 t2 db =
      (\<lparr>status = 201, payload = Json_object ?p\<rparr>, db @ [inserted_row ?p])"
    using assms(4) by (rule post_projects_ok [rotated])
  have rest: "\<forall>c. c \<notin> {''id'', ''createdAt'', ''updatedAt''} \<longrightarrow> ?p c = body c"
    by (simp add: newProject_apply)
  have stored: "\<forall>c \<in> set columns. inserted_row ?p c = Some (bind_param (?p c))"
    by (simp add: inserted_row_apply)
  have stamps: "?p ''createdAt'' = Some (JStr t1)" "?p ''updatedAt'' = Some (JStr t2)"
    by (simp_all add: newProject_apply)
  show ?thesis
    apply (rule exI [of _ ?p])
    apply (rule exI [of _ "inserted_row ?p"])
    apply (intro conjI)
          apply (rule posted)
         apply (rule ident)
        apply (rule stamps(1))
       apply (rule stamps(2))
      apply (rule rest)
     apply (rule stored)
    apply (simp only: stamps)
    apply simp
    done
qed

theorem post_projects_creates_witness:
  "acme ''id'' = None \<and> acme ''createdAt'' = None \<and> acme ''updatedAt'' = None \<and>
   supplies_required acme \<and> typed acme \<and> \<not> has_id [] ''1736928000000'' \<and>
   status (fst (post_projects ''1736928000000'' acme ''2025-01-15T08:00:00.000Z''
     ''2025-01-15T08:00:00.000Z'' [])) = 201 \<and>
   payload_field (fst (post_projects ''1736928000000'' acme ''2025-01-15T08:00:00.000Z''
     ''2025-01-15T08:00:00.000Z'' [])) ''id'' = Some (JStr ''1736928000000'') \<and>
   length (snd (post_projects ''1736928000000'' acme ''2025-01-15T08:00:00.000Z''
     ''2025-01-15T08:00:00.000Z'' [])) = 1"
proof -
  have h: "acme ''id'' = None" "acme ''createdAt'' = None" "acme ''updatedAt'' = None"
    by (simp_all add: acme_def)
  have fresh: "\<not> has_id [] ''1736928000000''"
    by (simp add: has_id_def)
  from post_projects_creates [OF h supplies_required_acme typed_acme fresh,
      of "''2025-01-15T08:00:00.000Z''" "''2025-01-15T08:00:00.000Z''"]
  obtain project row where
    "post_projects ''1736928000000'' acme ''2025-01-15T08:00:00.000Z''
       ''2025-01-15T08:00:00.000Z'' [] =
       (\<lparr>status = 201, payload = Json_object project\<rparr>, [] @ [row])"
    and "project ''id'' = Some (JStr ''1736928000000'')"
    by blast
  then show ?thesis
    using h fresh supplies_required_acme typed_acme by (simp add: payload_field_def)
qed

text \<open>
  C6 as stated fails in two ways. A second request in the same millisecond reads an id
  that is taken, and is answered 500. Two readings of the clock a millisecond apart give
  a record whose \<open>createdAt\<close> and \<open>updatedAt\<close> differ.
\<close>

theorem post_projects_counterexample:
  "status (fst (post_projects ''1736928000000'' acme ''2025-01-15T08:00:00.000Z''
     ''2025-01-15T08:00:00.000Z''
     [acme_row ''1736928000000'' ''2025-01-15T08:00:00.000Z''])) = 500 \<and>
   payload_field (fst (post_projects ''1736928000000'' acme ''2025-01-15T08:00:00.999Z''
     ''2025-01-15T08:00:01.000Z'' [])) ''createdAt'' = Some (JStr ''2025-01-15T08:00:00.999Z'') \<and>
   payload_field (fst (post_projects ''1736928000000'' acme ''2025-01-15T08:00:00.999Z''
     ''2025-01-15T08:00:01.000Z'' [])) ''updatedAt'' = Some (JStr ''2025-01-15T08:00:01.000Z'')"
proof -
  have taken: "id_taken [acme_row ''1736928000000'' ''2025-01-15T08:00:00.000Z'']
      (bind_param (newProject ''1736928000000'' acme ''2025-01-15T08:00:00.000Z''
         ''2025-01-15T08:00:00.000Z'' ''id''))"
    by (simp add: id_taken_def acme_row_apply newProject_apply acme_def)
  have "post_projects ''1736928000000'' acme ''2025-01-15T08:00:00.000Z''
     ''2025-01-15T08:00:00.000Z'' [acme_row ''1736928000000'' ''2025-01-15T08:00:00.000Z''] =
     (error_response ''Failed to create project'',
      [acme_row ''1736928000000'' ''2025-01-15T08:00:00.000Z''])"
    using taken by (simp add: post_projects_fail)
  then show ?thesis
    by (simp add: post_projects_acme payload_field_def newProject_apply error_response_def)
qed

subsection \<open>C7: Updating a project\<close>

text \<open>
  C7 (amended). For every well-formed store, every id with a stored row \<open>r\<close> and every
  typed input that supplies the NOT NULL fields, \<open>updateProject\<close> replaces that row by a
  row \<open>r'\<close> and leaves every other row as it is; \<open>r'\<close> is the row read back from
  the store after the write and the body of the 200 answer; it has the \<open>id\<close> and the
  \<open>createdAt\<close> of \<open>r\<close>, the current time as \<open>updatedAt\<close> and the value of the
  input in each of the nineteen other columns. When the input has the values of \<open>r\<close>
  in these columns, \<open>r'\<close> differs from \<open>r\<close> in \<open>updatedAt\<close> at most.
\<close>

theorem updateProject_overwrites:
  assumes "wf_table db"
      and "find (\<lambda>x. x ''id'' = Some (JStr ident)) db = Some r"
      and "supplies_required project" and "typed project"
  shows "\<exists>r'.
     updateProject ident project now db =
       (Inr (Some r'), map (\<lambda>x. if x ''id'' = Some (JStr ident) then r' else x) db) \<and>
     find (\<lambda>x. x ''id'' = Some (JStr ident))
       (map (\<lambda>x. if x ''id'' = Some (JStr ident) then r' else x) db) = Some r' \<and>
     put_project ident project now db =
       (\<lparr>status = 200, payload = Json_object r'\<rparr>,
        map (\<lambda>x. if x ''id'' = Some (JStr ident) then r' else x) db) \<and>
     r' ''id'' = r ''id'' \<and>
     r' ''createdAt'' = r ''createdAt'' \<and>
     r' ''updatedAt'' = Some (JStr now) \<and>
     (\<forall>c \<in> set data_columns. r' c = Some (bind_param (project c))) \<and>
     ((\<forall>c \<in> set data_columns. bind_param (project c) = bind_param (r c)) \<longrightarrow>
        (\<forall>c. c \<noteq> ''updatedAt'' \<longrightarrow> r' c = r c))"
proof -
  let ?hit = "\<lambda>x. x ''id'' = Some (JStr ident)"
  let ?upd = "updated_row (update_values ident project now)"
  let ?r' = "?upd r"
  have r: "r \<in> set db" "?hit r"
    using assms(2) by (auto dest: find_SomeD)
  have wf: "list_all wf_row db" "wf_row r"
    using assms(1) r(1) by (auto simp: wf_table_def list_all_iff)
  have only: "x = r" if "x \<in> set db" "?hit x" for x
    using wf_table_unique [OF assms(1) that(1) r(1)] that(2) r(2) by simp
  have same_map: "map (\<lambda>x. if ?hit x then ?upd x else x) db =
      map (\<lambda>x. if ?hit x then ?r' else x) db"
    using only by (intro map_cong) auto
  have run: "updateProject ident project now db =
      (Inr (Some ?r'), map (\<lambda>x. if ?hit x then ?r' else x) db)"
    using updateProject_succeeds [OF assms(3) wf(1), of ident now] assms(2) same_map by simp
  have read_back: "find ?hit (map (\<lambda>x. if ?hit x then ?r' else x) db) = Some ?r'"
    using find_map_update [of ?hit ?upd db] assms(2) same_map
    by (simp add: updated_row_id)
  have put: "put_project ident project now db =
       (\<lparr>status = 200, payload = Json_object ?r'\<rparr>,
        map (\<lambda>x. if ?hit x then ?r' else x) db)"
    by (simp add: put_project_def run)
  have data: "\<forall>c \<in> set data_columns. ?r' c = Some (bind_param (project c))"
    by (simp add: updated_row_apply data_columns_eq)
  have same: "\<forall>c. c \<noteq> ''updatedAt'' \<longrightarrow> ?r' c = r c"
    if own: "\<forall>c \<in> set data_columns. bind_param (project c) = bind_param (r c)"
  proof (intro allI impI)
    fix c :: string
    assume c: "c \<noteq> ''updatedAt''"
    show "?r' c = r c"
    proof (cases "c \<in> set data_columns")
      case True
      then have "c \<in> set columns"
        by (auto simp: data_columns_eq columns_def)
      then obtain v where v: "r c = Some v"
        using wf_row_defined [OF wf(2)] by blast
      from True own have "bind_param (project c) = v"
        by (simp add: v)
      with True c v show ?thesis
        by (simp add: updated_row_apply)
    next
      case False
      with c show ?thesis by (simp add: updated_row_apply)
    qed
  qed
  show ?thesis
    apply (rule exI [of _ ?r'])
    apply (intro conjI)
           apply (rule run)
          apply (rule read_back)
         apply (rule put)
        apply (rule updated_row_id)
       apply (rule updated_row_createdAt)
      apply (simp add: updated_row_apply)
     apply (rule data)
    apply (rule impI)
    apply (erule same)
    done
qed

theorem updateProject_overwrites_witness:
  "wf_table [acme_row ''1736928000000'' ''2025-01-15T08:00:00.000Z''] \<and>
   find (\<lambda>x. x ''id'' = Some (JStr ''1736928000000''))
     [acme_row ''1736928000000'' ''2025-01-15T08:00:00.000Z''] =
     Some (acme_row ''1736928000000'' ''2025-01-15T08:00:00.000Z'') \<and>
   supplies_required acme_completed \<and> typed acme_completed \<and>
   (\<exists>r'. fst (updateProject ''1736928000000'' acme_completed ''2025-02-01T09:30:00.000Z''
            [acme_row ''1736928000000'' ''2025-01-15T08:00:00.000Z'']) = Inr (Some r') \<and>
      r' ''id'' = Some (JStr ''1736928000000'') \<and>
      r' ''createdAt'' = Some (JStr ''2025-01-15T08:00:00.000Z'') \<and>
      r' ''updatedAt'' = Some (JStr ''2025-02-01T09:30:00.000Z'') \<and>
      r' ''projectStatus'' = Some (JStr ''Completed'') \<and>
      r' ''companyName'' = Some (JStr ''Acme''))"
proof -
  let ?r = "acme_row ''1736928000000'' ''2025-01-15T08:00:00.000Z''"
  have wf: "wf_table [?r]"
    by (rule wf_table_single) (rule wf_row_acme_row)
  have found: "find (\<lambda>x. x ''id'' = Some (JStr ''1736928000000'')) [?r] = Some ?r"
    by (simp add: acme_row_apply)
  have req: "supplies_required acme_completed"
    by (simp add: supplies_required_def required_columns_eq acme_completed_def acme_def)
  have ty: "typed acme_completed"
    by (simp add: typed_def columns_def acme_completed_def acme_def integer_columns_def)
  from updateProject_overwrites [OF wf found req ty, of "''2025-02-01T09:30:00.000Z''"]
  obtain r' where run: "updateProject ''1736928000000'' acme_completed
        ''2025-02-01T09:30:00.000Z'' [?r] =
        (Inr (Some r'), map (\<lambda>x. if x ''id'' = Some (JStr ''1736928000000'') then r' else x) [?r])"
    and keep: "r' ''id'' = ?r ''id''" "r' ''createdAt'' = ?r ''createdAt''"
    and stamp: "r' ''updatedAt'' = Some (JStr ''2025-02-01T09:30:00.000Z'')"
    and data: "\<forall>c \<in> set data_columns. r' c = Some (bind_param (acme_completed c))"
    by (elim exE conjE) (rule that; assumption)
  have "r' ''projectStatus'' = Some (JStr ''Completed'')" "r' ''companyName'' = Some (JStr ''Acme'')"
    using data by (simp_all add: data_columns_eq acme_completed_def acme_def)
  moreover have "r' ''id'' = Some (JStr ''1736928000000'')"
      "r' ''createdAt'' = Some (JStr ''2025-01-15T08:00:00.000Z'')"
    using keep by (simp_all add: acme_row_apply)
  moreover have "fst (updateProject ''1736928000000'' acme_completed
        ''2025-02-01T09:30:00.000Z'' [?r]) = Inr (Some r')"
    by (simp only: run fst_conv)
  ultimately show ?thesis
    using wf found req ty stamp by blast
qed

text \<open>
  C7 as stated fails: an update of a stored id whose input has the project status only
  lacks the other NOT NULL fields; it is answered 500, and the stored row keeps its
  status and its \<open>updatedAt\<close>.
\<close>

theorem updateProject_counterexample:
  "has_id [acme_row ''1736928000000'' ''2025-01-15T08:00:00.000Z''] ''1736928000000'' \<and>
   fst (updateProject ''1736928000000'' status_only ''2025-02-01T09:30:00.000Z''
     [acme_row ''1736928000000'' ''2025-01-15T08:00:00.000Z'']) = Inl SQLITE_CONSTRAINT \<and>
   status (fst (put_project ''1736928000000'' status_only ''2025-02-01T09:30:00.000Z''
     [acme_row ''1736928000000'' ''2025-01-15T08:00:00.000Z''])) = 500 \<and>
   (snd (put_project ''1736928000000'' status_only ''2025-02-01T09:30:00.000Z''
     [acme_row ''1736928000000'' ''2025-01-15T08:00:00.000Z'']) ! 0) ''projectStatus'' =
     Some (JStr ''Planning'') \<and>
   (snd (put_project ''1736928000000'' status_only ''2025-02-01T09:30:00.000Z''
     [acme_row ''1736928000000'' ''2025-01-15T08:00:00.000Z'']) ! 0) ''updatedAt'' =
     Some (JStr ''2025-01-15T08:00:00.000Z'')"
proof -
  let ?r = "acme_row ''1736928000000'' ''2025-01-15T08:00:00.000Z''"
  have stored: "has_id [?r] ''1736928000000''"
    by (simp add: has_id_def acme_row_apply)
  have partial: "\<not> supplies_required status_only"
    by (simp add: supplies_required_def required_columns_eq status_only_def)
  have rejected: "updateProject ''1736928000000'' status_only ''2025-02-01T09:30:00.000Z'' [?r] =
      (Inl SQLITE_CONSTRAINT, [?r])"
    by (rule updateProject_rejects [of ?r "[?r]" "''1736928000000''", OF _ _ partial])
      (simp_all add: acme_row_apply)
  then have answer: "put_project ''1736928000000'' status_only ''2025-02-01T09:30:00.000Z'' [?r] =
      (error_response ''Failed to update project'', [?r])"
    by (simp add: put_project_def)
  have kept: "?r ''projectStatus'' = Some (JStr ''Planning'')"
      "?r ''updatedAt'' = Some (JStr ''2025-01-15T08:00:00.000Z'')"
    by (simp_all add: acme_row_apply columns_def acme_def)
  show ?thesis
    using stored kept by (simp add: rejected answer error_response_def)
qed

subsection \<open>C8: Listing the projects\<close>

text \<open>
  C8. For every store, \<open>getAllProjects\<close> (and with it GET /api/projects, status 200)
  returns all stored rows, each as often as it is stored, ordered by \<open>createdAt\<close>
  descending: no row comes before a row with a greater \<open>createdAt\<close>.
\<close>

theorem getAllProjects_newest_first:
  "\<exists>rows. getAllProjects db = Inr rows \<and>
     get_projects db = \<lparr>status = 200, payload = Json_array rows\<rparr> \<and>
     mset rows = mset db \<and> newest_first rows"
proof -
  let ?rows = "order_by_createdAt_desc db"
  have query: "getAllProjects db = Inr ?rows"
    by (simp add: getAllProjects_def)
  then have route: "get_projects db = \<lparr>status = 200, payload = Json_array ?rows\<rparr>"
    by (simp add: get_projects_def)
  have all_rows: "mset ?rows = mset db"
    by (rule mset_order_by)
  have ordered: "newest_first ?rows"
    by (rule newest_first_order_by)
  from query route all_rows ordered show ?thesis
    by (intro exI [of _ ?rows] conjI)
qed

theorem getAllProjects_newest_first_witness:
  "getAllProjects
     [acme_row ''1'' ''2024-06-01T00:00:00.000Z'', acme_row ''2'' ''2025-01-15T08:00:00.000Z'',
      acme_row ''3'' ''2023-12-31T23:59:59.999Z''] =
   Inr [acme_row ''2'' ''2025-01-15T08:00:00.000Z'', acme_row ''1'' ''2024-06-01T00:00:00.000Z'',
        acme_row ''3'' ''2023-12-31T23:59:59.999Z''] \<and>
   newest_first
     [acme_row ''2'' ''2025-01-15T08:00:00.000Z'', acme_row ''1'' ''2024-06-01T00:00:00.000Z'',
      acme_row ''3'' ''2023-12-31T23:59:59.999Z'']"
proof -
  let ?db = "[acme_row ''1'' ''2024-06-01T00:00:00.000Z'',
      acme_row ''2'' ''2025-01-15T08:00:00.000Z'', acme_row ''3'' ''2023-12-31T23:59:59.999Z'']"
  have sorted: "order_by_createdAt_desc ?db =
      [acme_row ''2'' ''2025-01-15T08:00:00.000Z'', acme_row ''1'' ''2024-06-01T00:00:00.000Z'',
        acme_row ''3'' ''2023-12-31T23:59:59.999Z'']"
    by (simp add: order_by_createdAt_desc_def createdAt_of_def acme_row_apply)
  show ?thesis
    using getAllProjects_newest_first [of ?db] sorted
    by (auto simp: getAllProjects_def)
qed

subsection \<open>C9: The gender percentages of an empty dashboard\<close>

text \<open>
  C9. For the empty list of projects totalProjects is 0, totalEmployees is 0, and both
  gender percentages have a value, which is \<open>NaN\<close>: the division by zero raises
  nothing. The same holds for every list of projects whose counts are not negative and
  whose totals are the sums of their counts, when totalEmployees is 0.
\<close>

theorem gender_percentage_zero:
  fixes projects :: "project list"
  shows "totalProjects (stats []) = 0 \<and> totalEmployees (stats []) = 0 \<and>
    malePercentage (stats []) = NaN \<and> femalePercentage (stats []) = NaN \<and>
    (list_all (\<lambda>p. 0 \<le> employeesMale p \<and> 0 \<le> employeesFemale p \<and>
         employeesTotal p = employeesMale p + employeesFemale p) projects \<and>
     totalEmployees (stats projects) = 0 \<longrightarrow>
       malePercentage (stats projects) = NaN \<and> femalePercentage (stats projects) = NaN)"
proof -
  have empty: "totalProjects (stats []) = 0" "totalEmployees (stats []) = 0"
      "malePercentage (stats []) = NaN" "femalePercentage (stats []) = NaN"
    by (simp_all add: stats_def malePercentage_def femalePercentage_def js_divide_def)
  have zero: "malePercentage (stats projects) = NaN \<and> femalePercentage (stats projects) = NaN"
    if counts: "list_all (\<lambda>p. 0 \<le> employeesMale p \<and> 0 \<le> employeesFemale p \<and>
         employeesTotal p = employeesMale p + employeesFemale p) projects"
      and total: "totalEmployees (stats projects) = 0"
  proof -
    have male: "0 \<le> (\<Sum>p\<leftarrow>projects. employeesMale p)"
      using counts by (intro sum_list_nonneg) (auto simp: list_all_iff)
    have female: "0 \<le> (\<Sum>p\<leftarrow>projects. employeesFemale p)"
      using counts by (intro sum_list_nonneg) (auto simp: list_all_iff)
    have "(\<Sum>p\<leftarrow>projects. employeesTotal p) =
        (\<Sum>p\<leftarrow>projects. employeesMale p) + (\<Sum>p\<leftarrow>projects. employeesFemale p)"
      using counts by (induction projects) simp_all
    with total have "(\<Sum>p\<leftarrow>projects. employeesMale p) + (\<Sum>p\<leftarrow>projects. employeesFemale p) = 0"
      by (simp add: stats_def foldl_plus)
    with male female have "(\<Sum>p\<leftarrow>projects. employeesMale p) = 0"
        "(\<Sum>p\<leftarrow>projects. employeesFemale p) = 0"
      by linarith+
    then have "maleEmployees (stats projects) = 0" "femaleEmployees (stats projects) = 0"
      by (simp_all add: stats_def foldl_plus)
    with total show ?thesis
      by (simp add: percentage_zero_total)
  qed
  show ?thesis
    using empty zero by blast
qed

theorem gender_percentage_zero_witness:
  "list_all (\<lambda>p. 0 \<le> employeesMale p \<and> 0 \<le> employeesFemale p \<and>
       employeesTotal p = employeesMale p + employeesFemale p) [idle_project] \<and>
   totalEmployees (stats [idle_project]) = 0 \<and>
   malePercentage (stats [idle_project]) = NaN \<and>
   femalePercentage (stats [idle_project]) = NaN"
proof -
  have counts: "list_all (\<lambda>p. 0 \<le> employeesMale p \<and> 0 \<le> employeesFemale p \<and>
       employeesTotal p = employeesMale p + employeesFemale p) [idle_project]"
    by (simp add: idle_project_def as_project_def)
  have total: "totalEmployees (stats [idle_project]) = 0"
    by (simp add: stats_def idle_project_def as_project_def)
  show ?thesis
    using counts total gender_percentage_zero [of "[idle_project]"] by blast
qed

subsection \<open>C10: The place of the body in the new project\<close>

text \<open>
  C10. For every typed body with an \<open>id\<close>, the record that the POST handler builds
  has the id of the body, not the one read from the clock, and the two timestamps read
  from the clock, whatever the body says; whenever the request is answered 201, the row
  appended to the store and the record returned have that id and those timestamps.
\<close>

theorem post_projects_body_id:
  assumes "body ''id'' = Some v" and "typed body"
  shows "newProject now_id body t1 t2 ''id'' = Some v \<and>
    newProject now_id body t1 t2 ''createdAt'' = Some (JStr t1) \<and>
    newProject now_id body t1 t2 ''updatedAt'' = Some (JStr t2) \<and>
    (\<forall>res db'. post_projects now_id body t1 t2 db = (res, db') \<and> status res = 201 \<longrightarrow>
       (\<exists>row. db' = db @ [row] \<and> row ''id'' = Some v \<and>
          row ''createdAt'' = Some (JStr t1) \<and> row ''updatedAt'' = Some (JStr t2)) \<and>
       payload_field res ''id'' = Some v \<and>
       payload_field res ''createdAt'' = Some (JStr t1) \<and>
       payload_field res ''updatedAt'' = Some (JStr t2))"
proof -
  let ?p = "newProject now_id body t1 t2"
  have fields: "?p ''id'' = Some v" "?p ''createdAt'' = Some (JStr t1)"
      "?p ''updatedAt'' = Some (JStr t2)"
    using assms(1) by (simp_all add: newProject_apply)
  have row: "inserted_row ?p ''id'' = Some v" "inserted_row ?p ''createdAt'' = Some (JStr t1)"
      "inserted_row ?p ''updatedAt'' = Some (JStr t2)"
    by (simp_all add: inserted_row_apply fields columns_def)
  have "\<exists>row. db' = db @ [row] \<and> row ''id'' = Some v \<and>
          row ''createdAt'' = Some (JStr t1) \<and> row ''updatedAt'' = Some (JStr t2)"
       "payload_field res ''id'' = Some v"
       "payload_field res ''createdAt'' = Some (JStr t1)"
       "payload_field res ''updatedAt'' = Some (JStr t2)"
    if "post_projects now_id body t1 t2 db = (res, db')" and "status res = 201" for res db'
  proof -
    have ok: "supplies_required body \<and> \<not> id_taken db (bind_param (?p ''id''))"
    proof (rule ccontr)
      assume "\<not> ?thesis"
      then have "post_projects now_id body t1 t2 db =
          (error_response ''Failed to create project'', db)"
        by (simp add: post_projects_fail)
      with that show False by (auto simp: error_response_def)
    qed
    then have "post_projects now_id body t1 t2 db =
        (\<lparr>status = 201, payload = Json_object ?p\<rparr>, db @ [inserted_row ?p])"
      by (simp add: post_projects_ok)
    with that have res: "res = \<lparr>status = 201, payload = Json_object ?p\<rparr>"
      and db': "db' = db @ [inserted_row ?p]"
      by simp_all
    show "\<exists>row. db' = db @ [row] \<and> row ''id'' = Some v \<and>
          row ''createdAt'' = Some (JStr t1) \<and> row ''updatedAt'' = Some (JStr t2)"
      using db' row by blast
    show "payload_field res ''id'' = Some v"
       "payload_field res ''createdAt'' = Some (JStr t1)"
       "payload_field res ''updatedAt'' = Some (JStr t2)"
      by (simp_all add: res payload_field_def fields)
  qed
  with fields show ?thesis by blast
qed

theorem post_projects_body_id_witness:
  "acme_with_id ''id'' = Some (JStr ''custom-id'') \<and> typed acme_with_id \<and>
   status (fst (post_projects ''1736928000000'' acme_with_id ''2025-01-15T08:00:00.000Z''
     ''2025-01-15T08:00:00.000Z'' [])) = 201 \<and>
   payload_field (fst (post_projects ''1736928000000'' acme_with_id ''2025-01-15T08:00:00.000Z''
     ''2025-01-15T08:00:00.000Z'' [])) ''id'' = Some (JStr ''custom-id'') \<and>
   payload_field (fst (post_projects ''1736928000000'' acme_with_id ''2025-01-15T08:00:00.000Z''
     ''2025-01-15T08:00:00.000Z'' [])) ''createdAt'' = Some (JStr ''2025-01-15T08:00:00.000Z'')"
proof -
  let ?post = "post_projects ''1736928000000'' acme_with_id ''2025-01-15T08:00:00.000Z''
     ''2025-01-15T08:00:00.000Z'' []"
  have given: "acme_with_id ''id'' = Some (JStr ''custom-id'')"
    by (simp add: acme_with_id_def)
  have created: "status (fst ?post) = 201"
    using post_projects_ok [of acme_with_id "[]" "''1736928000000''"
        "''2025-01-15T08:00:00.000Z''" "''2025-01-15T08:00:00.000Z''"]
    by (simp add: supplies_required_acme_with_id id_taken_def)
  have "?post = (fst ?post, snd ?post) \<and> status (fst ?post) = 201"
    using created by simp
  with post_projects_body_id [OF given typed_acme_with_id, of "''1736928000000''"
      "''2025-01-15T08:00:00.000Z''" "''2025-01-15T08:00:00.000Z''" "[]"]
  have "payload_field (fst ?post) ''id'' = Some (JStr ''custom-id'') \<and>
      payload_field (fst ?post) ''createdAt'' = Some (JStr ''2025-01-15T08:00:00.000Z'')"
    by blast
  then show ?thesis
    using given typed_acme_with_id created by simp
qed

end
